theory Spec2Isabelle
  imports Complex_Main
begin

section \<open>Vectors in three dimensions\<close>

text \<open>
  The gamut code of \<^verbatim>\<open>src/colour/gamut.py\<close> works on numpy arrays of 64-bit floats.
  Coordinates are modelled as real numbers and every numpy operation as its exact
  counterpart, so the development speaks about the algorithms as written, not about
  rounding. A point is one row of an \<^verbatim>\<open>(N, 3)\<close> array.
\<close>

type_synonym point = "real \<times> real \<times> real"

fun vadd :: "point \<Rightarrow> point \<Rightarrow> point" where
  "vadd (a0, a1, a2) (b0, b1, b2) = (a0 + b0, a1 + b1, a2 + b2)"

fun vsub :: "point \<Rightarrow> point \<Rightarrow> point" where
  "vsub (a0, a1, a2) (b0, b1, b2) = (a0 - b0, a1 - b1, a2 - b2)"

fun vscale :: "real \<Rightarrow> point \<Rightarrow> point" where
  "vscale k (a0, a1, a2) = (k * a0, k * a1, k * a2)"

fun vdiv :: "point \<Rightarrow> real \<Rightarrow> point" where
  "vdiv (a0, a1, a2) k = (a0 / k, a1 / k, a2 / k)"

text \<open>\<^verbatim>\<open>np.cross\<close>, \<^verbatim>\<open>np.dot\<close> and \<^verbatim>\<open>np.linalg.norm\<close> on 3-vectors.\<close>

fun cross :: "point \<Rightarrow> point \<Rightarrow> point" where
  "cross (a0, a1, a2) (b0, b1, b2) = (a1 * b2 - a2 * b1, a2 * b0 - a0 * b2, a0 * b1 - a1 * b0)"

fun dot :: "point \<Rightarrow> point \<Rightarrow> real" where
  "dot (a0, a1, a2) (b0, b1, b2) = a0 * b0 + a1 * b1 + a2 * b2"

definition norm3 :: "point \<Rightarrow> real" where
  "norm3 v = sqrt (dot v v)"

text \<open>The determinant of a 3x3 matrix given by its rows (\<^verbatim>\<open>np.linalg.det\<close>).\<close>

fun det3 :: "point \<Rightarrow> point \<Rightarrow> point \<Rightarrow> real" where
  "det3 (a0, a1, a2) (b0, b1, b2) (c0, c1, c2) =
     a0 * (b1 * c2 - b2 * c1) - a1 * (b0 * c2 - b2 * c0) + a2 * (b0 * c1 - b1 * c0)"

text \<open>
  The determinant of a 4x4 matrix given by its rows (\<^verbatim>\<open>scipy.linalg.det\<close>), expanded
  along the last row.
\<close>

type_synonym row4 = "real \<times> real \<times> real \<times> real"

fun det4 :: "row4 \<Rightarrow> row4 \<Rightarrow> row4 \<Rightarrow> row4 \<Rightarrow> real" where
  "det4 (a0, a1, a2, a3) (b0, b1, b2, b3) (c0, c1, c2, c3) (d0, d1, d2, d3) =
     - d0 * det3 (a1, a2, a3) (b1, b2, b3) (c1, c2, c3)
     + d1 * det3 (a0, a2, a3) (b0, b2, b3) (c0, c2, c3)
     - d2 * det3 (a0, a1, a3) (b0, b1, b3) (c0, c1, c3)
     + d3 * det3 (a0, a1, a2) (b0, b1, b2) (c0, c1, c2)"

text \<open>\<^verbatim>\<open>int(np.sign(x))\<close>.\<close>

definition np_sign :: "real \<Rightarrow> int" where
  "np_sign x = (if 0 < x then 1 else if x < 0 then - 1 else 0)"

section \<open>The gamut\<close>

text \<open>
  \<^verbatim>\<open>Gamut.sign(t)\<close>: \<^verbatim>\<open>t\<close> has shape (4, 3); the matrix has the coordinates of the four
  points as columns and a last row of ones; the result is
  \<^verbatim>\<open>int(np.sign(sci.linalg.det(matrix)))*-1\<close>.
\<close>

definition sign_matrix_det :: "point list \<Rightarrow> real" where
  "sign_matrix_det t =
     det4 (fst (t ! 0), fst (t ! 1), fst (t ! 2), fst (t ! 3))
          (fst (snd (t ! 0)), fst (snd (t ! 1)), fst (snd (t ! 2)), fst (snd (t ! 3)))
          (snd (snd (t ! 0)), snd (snd (t ! 1)), snd (snd (t ! 2)), snd (snd (t ! 3)))
          (1, 1, 1, 1)"

definition sign :: "point list \<Rightarrow> int" where
  "sign t = np_sign (sign_matrix_det t) * - 1"

text \<open>
  \<^verbatim>\<open>Gamut.center_of_mass(points)\<close>: \<^verbatim>\<open>cm = points.sum(0) / points.shape[0]\<close>, then every
  row of the argument has \<^verbatim>\<open>cm\<close> subtracted in place. The model returns the mean together
  with the array as the caller finds it after the call.
\<close>

definition vsum :: "point list \<Rightarrow> point" where
  "vsum ps = foldl vadd (0, 0, 0) ps"

definition center_of_mass :: "point list \<Rightarrow> point \<times> point list" where
  "center_of_mass points_in =
     (let cm = vdiv (vsum points_in) (real (length points_in))
      in (cm, map (\<lambda>p. vsub p cm) points_in))"

text \<open>
  \<^verbatim>\<open>Gamut.in_line(line, point, true_interior)\<close>: \<^verbatim>\<open>line\<close> holds the two end points.
\<close>

definition in_line :: "point list \<Rightarrow> point \<Rightarrow> bool \<Rightarrow> bool" where
  "in_line line pt true_interior =
     (if true_interior \<and> (pt = line ! 0 \<or> pt = line ! 1) then False
      else
        let b = vsub (line ! 1) (line ! 0);
            p = vsub pt (line ! 0)
        in if det3 (1, 1, 1) b p \<noteq> 0 then False
           else if dot p b < 0 then False
           else if norm3 p > norm3 b then False
           else True)"


text \<open>
  \<^verbatim>\<open>np.delete(a, i, 0)\<close> removes row \<^verbatim>\<open>i\<close>; \<^verbatim>\<open>np.allclose(a, q)\<close> compares every row of
  \<^verbatim>\<open>a\<close> with \<^verbatim>\<open>q\<close> componentwise, with the default tolerances
  \<^verbatim>\<open>rtol=1e-05, atol=1e-08\<close>.
\<close>

definition np_delete :: "'a list \<Rightarrow> nat \<Rightarrow> 'a list" where
  "np_delete xs i = take i xs @ drop (Suc i) xs"

definition isclose :: "real \<Rightarrow> real \<Rightarrow> bool" where
  "isclose a b = (\<bar>a - b\<bar> \<le> 1 / 100000000 + (1 / 100000) * \<bar>b\<bar>)"

fun allclose_point :: "point \<Rightarrow> point \<Rightarrow> bool" where
  "allclose_point (a0, a1, a2) (b0, b1, b2) = (isclose a0 b0 \<and> isclose a1 b1 \<and> isclose a2 b2)"

definition allclose :: "point list \<Rightarrow> point \<Rightarrow> bool" where
  "allclose a q = list_all (\<lambda>r. allclose_point r q) a"

text \<open>\<^verbatim>\<open>Gamut.is_coplanar(p)\<close>.\<close>

definition is_coplanar :: "point list \<Rightarrow> bool" where
  "is_coplanar p =
     (if length p < 4 then True
      else
        let b = vsub (p ! 1) (p ! 0);
            c = vsub (p ! 2) (p ! 0);
            d = vsub (p ! 3) (p ! 0)
        in dot d (cross b c) = 0)"

text \<open>
  \<^verbatim>\<open>Gamut.in_triangle(triangle, P, true_interior)\<close>. The degenerate branches pass the
  relative vector \<^verbatim>\<open>p\<close>, not \<^verbatim>\<open>P\<close>, to \<^verbatim>\<open>in_line\<close>, as the source does. When
  \<^verbatim>\<open>denom\<close> is zero numpy's quotients are \<^verbatim>\<open>inf\<close> or \<^verbatim>\<open>nan\<close> and the final comparison is
  False; HOL's \<open>x / 0 = 0\<close> would make it True, so the case is written out.
\<close>

definition in_triangle :: "point list \<Rightarrow> point \<Rightarrow> bool \<Rightarrow> bool" where
  "in_triangle triangle P true_interior =
     (if true_interior \<and> (in_line (take 2 triangle) P False \<or>
                           in_line (take 2 (drop 1 triangle)) P False \<or>
                           in_line [triangle ! 0, triangle ! 2] P False) then False
      else
        let b = vsub (triangle ! 1) (triangle ! 0);
            c = vsub (triangle ! 2) (triangle ! 0);
            p = vsub P (triangle ! 0)
        in if triangle ! 0 = triangle ! 1 then in_line [triangle ! 0, triangle ! 1] p False
           else if triangle ! 0 = triangle ! 2 then in_line [triangle ! 0, triangle ! 2] p False
           else if triangle ! 1 = triangle ! 2 then in_line [triangle ! 1, triangle ! 2] p False
           else
             let b_x_c = cross b c
             in if dot b_x_c p \<noteq> 0 then False
                else
                  let c_x_p = cross c p;
                      c_x_b = cross c b
                  in if dot c_x_p c_x_b < 0 then False
                     else
                       let b_x_p = cross b p
                       in if dot b_x_p b_x_c < 0 then False
                          else
                            let denom = norm3 b_x_c;
                                r = norm3 c_x_p / denom;
                                t = norm3 b_x_p / denom
                            in if denom = 0 then False else r + t \<le> 1)"

text \<open>\<^verbatim>\<open>Gamut.true_shape(points)\<close>: duplicates removed in order, then the two bounded loops.\<close>

definition uniques_of :: "point list \<Rightarrow> point list" where
  "uniques_of pts = foldl (\<lambda>uniques arr. if arr \<in> set uniques then uniques else uniques @ [arr]) [] pts"

definition true_shape :: "point list \<Rightarrow> point list" where
  "true_shape pts =
     (let uniques = uniques_of pts
      in if length uniques < 3 then uniques
         else if length uniques = 3 then
           (case find (\<lambda>i. in_line (np_delete uniques i) (uniques ! i) False) [0, 1, 2] of
              Some i \<Rightarrow> np_delete uniques i
            | None \<Rightarrow> uniques)
         else
           (case find (\<lambda>i. in_triangle (np_delete uniques i) (uniques ! i) False) [0, 1, 2, 3] of
              Some i \<Rightarrow> np_delete uniques i
            | None \<Rightarrow> uniques))"

text \<open>\<^verbatim>\<open>Gamut.in_polygon(pts, q, true_interior)\<close>.\<close>

definition in_polygon :: "point list \<Rightarrow> point \<Rightarrow> bool \<Rightarrow> bool" where
  "in_polygon pts q true_interior =
     (if true_interior then
        (in_triangle [pts ! 0, pts ! 1, pts ! 2] q True \<or>
         in_line [pts ! 1, pts ! 2] q True \<or>
         in_triangle [pts ! 1, pts ! 2, pts ! 3] q True)
      else
        (in_triangle [pts ! 0, pts ! 1, pts ! 2] q False \<or>
         in_triangle [pts ! 1, pts ! 2, pts ! 3] q False))"

text \<open>
  \<^verbatim>\<open>spatial.Delaunay(t).find_simplex(p) >= 0\<close> is a call into scipy. For four points
  that are not coplanar the triangulation is the tetrahedron itself, and the call answers
  whether \<^verbatim>\<open>p\<close> is in the closed tetrahedron: all four barycentric coordinates are
  non-negative. \<open>orient3\<close> is six times the signed volume.
\<close>

definition orient3 :: "point \<Rightarrow> point \<Rightarrow> point \<Rightarrow> point \<Rightarrow> real" where
  "orient3 a b c d = dot (vsub d a) (cross (vsub b a) (vsub c a))"

definition delaunay_find_simplex :: "point list \<Rightarrow> point \<Rightarrow> bool" where
  "delaunay_find_simplex t p =
     (let a = t ! 0; b = t ! 1; c = t ! 2; d = t ! 3;
          v = orient3 a b c d
      in 0 \<le> orient3 p b c d * v \<and> 0 \<le> orient3 a p c d * v \<and>
         0 \<le> orient3 a b p d * v \<and> 0 \<le> orient3 a b c p * v)"

text \<open>\<^verbatim>\<open>Gamut.in_tetrahedron(t, p, true_interior)\<close>.\<close>

definition in_tetrahedron :: "point list \<Rightarrow> point \<Rightarrow> bool \<Rightarrow> bool" where
  "in_tetrahedron t p true_interior =
     (if true_interior \<and> (in_triangle (np_delete t 0) p False \<or>
                           in_triangle (np_delete t 1) p False \<or>
                           in_triangle (np_delete t 2) p False \<or>
                           in_triangle (np_delete t 3) p False) then False
      else delaunay_find_simplex t p)"

text \<open>\<^verbatim>\<open>Gamut.interior(pts, q, true_interior)\<close>.\<close>

definition interior :: "point list \<Rightarrow> point \<Rightarrow> bool \<Rightarrow> bool" where
  "interior pts q true_interior =
     (if is_coplanar pts then
        (let ts = true_shape pts
         in if length ts = 1 then allclose ts q
            else if length ts = 2 then in_line ts q False
            else if length ts = 3 then in_triangle ts q true_interior
            else if length ts = 4 then in_polygon ts q true_interior
            else False)
      else in_tetrahedron pts q true_interior)"


section \<open>The hull and the membership test\<close>

text \<open>
  What \<^verbatim>\<open>scipy.spatial.ConvexHull\<close> returns: the points it was given, the indices of the
  hull's vertices, the facets as index triples (in three dimensions \<^verbatim>\<open>simplices\<close> has shape
  \<^verbatim>\<open>(nfacet, 3)\<close>) and the facet adjacency.
\<close>

type_synonym simplex = "nat \<times> nat \<times> nat"

record convex_hull =
  ch_points :: "point list"
  ch_vertices :: "nat list"
  ch_simplices :: "simplex list"
  ch_neighbors :: "simplex list"

text \<open>
  The fields of a \<^verbatim>\<open>Gamut\<close>. \<^verbatim>\<open>self.simplices\<close> and \<^verbatim>\<open>self.hull.simplices\<close> are the same
  numpy array (likewise the vertices and the neighbours), so one field stands for both;
  \<open>hull_points\<close> is \<^verbatim>\<open>self.hull.points\<close>.
\<close>

record gamut =
  hull_points :: "point list"
  vertices :: "nat list"
  simplices :: "simplex list"
  neighbors :: "simplex list"
  center :: point

text \<open>
  \<^verbatim>\<open>Gamut.get_coordinates(indices)\<close> copies the rows \<^verbatim>\<open>self.hull.points[index]\<close> into a new
  array; the first argument is \<^verbatim>\<open>self.hull.points\<close>. The indices come from the hull
  primitive and are rows of \<^verbatim>\<open>hull.points\<close>.
\<close>

definition get_coordinates :: "point list \<Rightarrow> nat list \<Rightarrow> point list" where
  "get_coordinates hull_pts indices = map (\<lambda>index. hull_pts ! index) indices"

text \<open>
  \<^verbatim>\<open>Gamut.fix_orientation()\<close>: the centre of mass is taken of a fresh copy of the vertex
  coordinates (the shifted copy is dropped), and a facet whose normal points towards it gets
  its first and last index swapped in place.
\<close>

definition fix_simplex :: "gamut \<Rightarrow> point \<Rightarrow> simplex \<Rightarrow> simplex" where
  "fix_simplex g c simplex =
     (case simplex of (s0, s1, s2) \<Rightarrow>
        let facet = get_coordinates (hull_points g) [s0, s1, s2];
            normal = cross (vsub (facet ! 1) (facet ! 0)) (vsub (facet ! 2) (facet ! 0))
        in if dot (vsub (facet ! 0) c) normal < 0 then (s2, s1, s0) else (s0, s1, s2))"

definition fix_orientation :: "gamut \<Rightarrow> gamut" where
  "fix_orientation g =
     (let c = fst (center_of_mass (get_coordinates (hull_points g) (vertices g)))
      in g\<lparr>simplices := map (fix_simplex g c) (simplices g)\<rparr>)"

text \<open>
  The state of the loop of \<^verbatim>\<open>Gamut.feito_torres(P)\<close>. \<^verbatim>\<open>v_plus\<close> and \<^verbatim>\<open>v_minus\<close> are
  Python lists of numbers: the source appends vertex indices \<^verbatim>\<open>el[0]\<close>, \<^verbatim>\<open>el[-1]\<close> to them,
  and for the middle vertex the value \<^verbatim>\<open>vertex[j]\<close>, which is coordinate \<^verbatim>\<open>j\<close> of that
  vertex. \<^verbatim>\<open>np.in1d(x, v)\<close> compares by numeric value.
\<close>

record ft_state =
  inclusion :: real
  v_plus :: "real list"
  v_minus :: "real list"

definition origin :: point where
  "origin = (0, 0, 0)"

definition in1d :: "real \<Rightarrow> real list \<Rightarrow> bool" where
  "in1d x v = (x \<in> set v)"

text \<open>The two blocks for the first and the last vertex of the facet: \<open>vert\<close> is its
  coordinates, \<open>idx\<close> the number that is looked up and recorded.\<close>

definition credit_vertex :: "point \<Rightarrow> point \<Rightarrow> real \<Rightarrow> int \<Rightarrow> ft_state \<Rightarrow> ft_state" where
  "credit_vertex P vert idx sign_face st =
     (if interior [origin, vert] P False \<and>
         ((sign_face > 0 \<and> \<not> in1d idx (v_plus st)) \<or>
          (sign_face < 0 \<and> \<not> in1d idx (v_minus st)))
      then
        (if sign_face < 0
         then st\<lparr>inclusion := inclusion st + real_of_int sign_face, v_minus := v_minus st @ [idx]\<rparr>
         else st\<lparr>inclusion := inclusion st + real_of_int sign_face, v_plus := v_plus st @ [idx]\<rparr>)
      else st)"

text \<open>The body of \<^verbatim>\<open>for vertex in facet[1:-1]\<close>; a facet has three vertices, so it runs
  once, with \<^verbatim>\<open>j = 1\<close> and \<^verbatim>\<open>vertex = facet[1]\<close>, and \<^verbatim>\<open>vertex[j]\<close> is the second
  coordinate of that vertex.\<close>

definition middle_vertex :: "point \<Rightarrow> point list \<Rightarrow> ft_state \<Rightarrow> ft_state" where
  "middle_vertex P facet st =
     (let vertex = facet ! 1;
          vertex_j = fst (snd vertex);
          tetra = [origin, facet ! 0, facet ! 1, facet ! 2];
          sign_tetra = sign tetra
      in if interior [origin, facet ! 0, facet ! 1] P True \<or>
            interior [origin, facet ! 1, facet ! 2] P True \<or>
            interior [origin, facet ! 2, facet ! 0] P True
         then st\<lparr>inclusion := inclusion st + 0.5 * real_of_int sign_tetra\<rparr>
         else if interior [origin, facet ! 1] P False \<and>
                 ((sign_tetra > 0 \<and> \<not> in1d vertex_j (v_plus st)) \<or>
                  (sign_tetra < 0 \<and> \<not> in1d vertex_j (v_minus st)))
         then
           (if sign_tetra < 0
            then st\<lparr>inclusion := inclusion st + real_of_int sign_tetra,
                    v_minus := v_minus st @ [vertex_j]\<rparr>
            else st\<lparr>inclusion := inclusion st + real_of_int sign_tetra,
                    v_plus := v_plus st @ [vertex_j]\<rparr>)
         else if interior tetra P True
         then st\<lparr>inclusion := inclusion st + real_of_int sign_tetra\<rparr>
         else st)"

text \<open>What one facet that does not contain \<^verbatim>\<open>P\<close> does to the state.\<close>

definition facet_update :: "point \<Rightarrow> simplex \<Rightarrow> point list \<Rightarrow> ft_state \<Rightarrow> ft_state" where
  "facet_update P el facet st =
     (case el of (e0, e1, e2) \<Rightarrow>
        let sign_face = sign [origin, facet ! 0, facet ! 1, facet ! 2];
            st1 = credit_vertex P (facet ! 0) (real e0) sign_face st;
            st2 = credit_vertex P (facet ! 2) (real e2) sign_face st1
        in middle_vertex P facet st2)"

fun feito_torres_loop :: "gamut \<Rightarrow> point \<Rightarrow> simplex list \<Rightarrow> ft_state \<Rightarrow> bool" where
  "feito_torres_loop g P [] st = (if inclusion st > 0 then True else False)"
| "feito_torres_loop g P (el # els) st =
     (case el of (e0, e1, e2) \<Rightarrow>
        let facet = get_coordinates (hull_points g) [e0, e1, e2]
        in if interior facet P True then True
           else feito_torres_loop g P els (facet_update P el facet st))"

definition feito_torres :: "gamut \<Rightarrow> point \<Rightarrow> bool" where
  "feito_torres g P =
     feito_torres_loop g P (simplices g) \<lparr>inclusion = 0, v_plus = [], v_minus = []\<rparr>"

section \<open>Errors\<close>

text \<open>
  \<open>IndexError\<close> and \<open>ValueError\<close> are Python's own exceptions and \<open>QhullError\<close> is what
  scipy's hull primitive raises. The other four are the names of the specification's
  taxonomy; \<^verbatim>\<open>gamut.py\<close> defines no exception class and none of the functions below
  produces them.
\<close>

datatype error = IndexError | ValueError | QhullError
  | DegenerateInputError | HullConstructionError | NoIntersectionError | MalformedQueryError

section \<open>Construction\<close>

text \<open>
  \<^verbatim>\<open>spatial.ConvexHull(points, qhull_options=...)\<close> is a call into scipy: it is a parameter
  \<open>prim\<close> of the construction, from the options string and the points to a hull or the
  exception it raises. \<open>data_linear\<close> is \<^verbatim>\<open>self.data.get_linear(self.space)\<close> and
  \<open>data_native\<close> is \<^verbatim>\<open>self.data.get(self.space)\<close>, both computed by the colour-space
  classes.
\<close>

type_synonym hull_primitive = "string \<Rightarrow> point list \<Rightarrow> error + convex_hull"

definition initialize_convex_hull :: "hull_primitive \<Rightarrow> point list \<Rightarrow> error + gamut" where
  "initialize_convex_hull prim data_linear =
     (case prim ''QJ'' data_linear of
        Inl e \<Rightarrow> Inl e
      | Inr qh \<Rightarrow>
          Inr \<lparr>hull_points = ch_points qh, vertices = ch_vertices qh,
               simplices = ch_simplices qh, neighbors = ch_neighbors qh,
               center = fst (center_of_mass (get_coordinates (ch_points qh) (ch_vertices qh)))\<rparr>)"

text \<open>
  The loop of \<^verbatim>\<open>initialize_modified_convex_hull\<close> replaces every point by
  \<^verbatim>\<open>point * (r ** gamma / r)\<close> with \<^verbatim>\<open>point\<close> already moved by \<^verbatim>\<open>center\<close>. For a point
  equal to the centre numpy computes \<^verbatim>\<open>nan\<close> coordinates; no statement below evaluates
  \<open>modify_radius\<close> there.
\<close>

definition modify_radius :: "real \<Rightarrow> point \<Rightarrow> point \<Rightarrow> point" where
  "modify_radius gamma cen pt =
     (let moved = vsub pt cen; r = norm3 moved in vscale (r powr gamma / r) moved)"

definition initialize_modified_convex_hull ::
  "hull_primitive \<Rightarrow> point list \<Rightarrow> real \<Rightarrow> point \<Rightarrow> error + gamut" where
  "initialize_modified_convex_hull prim data_native gamma cen =
     (case prim [] (map (modify_radius gamma cen) data_native) of
        Inl e \<Rightarrow> Inl e
      | Inr qh \<Rightarrow>
          Inr \<lparr>hull_points = ch_points qh, vertices = ch_vertices qh,
               simplices = ch_simplices qh, neighbors = ch_neighbors qh,
               center = cen\<rparr>)"

text \<open>\<^verbatim>\<open>Gamut.__init__(sp, points, gamma, center)\<close>.\<close>

definition gamut_init ::
  "hull_primitive \<Rightarrow> point list \<Rightarrow> point list \<Rightarrow> real \<Rightarrow> point \<Rightarrow> error + gamut" where
  "gamut_init prim data_linear data_native gamma cen =
     (case (if gamma = 1 then initialize_convex_hull prim data_linear
            else initialize_modified_convex_hull prim data_native gamma cen) of
        Inl e \<Rightarrow> Inl e
      | Inr g \<Rightarrow> Inr (fix_orientation g))"

section \<open>Boundary intersection\<close>

text \<open>
  \<^verbatim>\<open>Gamut.find_plane(points)\<close>. When the normal has length zero numpy's division gives
  \<^verbatim>\<open>nan\<close> in every entry; \<open>None\<close> stands for that array.
\<close>

definition find_plane :: "point list \<Rightarrow> row4 option" where
  "find_plane pts =
     (let v1 = vsub (pts ! 2) (pts ! 0);
          v2 = vsub (pts ! 1) (pts ! 0);
          n2 = cross v1 v2;
          nnorm = norm3 n2
      in if nnorm = 0 then None
         else
           let n3 = vdiv n2 nnorm
           in Some (fst n3, fst (snd n3), snd (snd n3), dot (pts ! 1) n3))"

text \<open>
  \<^verbatim>\<open>Gamut.get_alpha(d, center, n)\<close>. The operands are numpy floats, so a zero denominator
  gives \<^verbatim>\<open>inf\<close> or \<^verbatim>\<open>nan\<close> and no exception; \<open>None\<close> stands for these values, which fail
  the test \<^verbatim>\<open>0 <= x <= 1\<close>.
\<close>

fun get_alpha :: "point \<Rightarrow> point \<Rightarrow> row4 \<Rightarrow> real option" where
  "get_alpha (d0, d1, d2) (c0, c1, c2) (n0, n1, n2, n3) =
     (let num = n3 - c0 * n0 - c1 * n1 - c2 * n2;
          den = d0 * n0 - c0 * n0 + d1 * n1 - c1 * n1 + d2 * n2 - c2 * n2
      in if den = 0 then None else Some (num / den))"

text \<open>\<^verbatim>\<open>Gamut.line_alpha(alpha, d, center)\<close>.\<close>

definition line_alpha :: "real \<Rightarrow> point \<Rightarrow> point \<Rightarrow> point" where
  "line_alpha alpha d cen = vsub (vadd (vscale alpha d) cen) (vscale alpha cen)"

text \<open>
  The body of the loop of \<^verbatim>\<open>Gamut.intersectionpoint_on_line(d, center, sp)\<close> for one
  facet: the value appended to \<^verbatim>\<open>alpha\<close>, if any. \<open>new_points\<close> is \<^verbatim>\<open>self.data.get(sp)\<close>.
\<close>

definition facet_alpha :: "point list \<Rightarrow> point \<Rightarrow> point \<Rightarrow> simplex \<Rightarrow> real option" where
  "facet_alpha new_points d cen i =
     (case i of (m0, m1, m2) \<Rightarrow>
        let pt = [new_points ! m0, new_points ! m1, new_points ! m2]
        in (case find_plane pt of
              None \<Rightarrow> None
            | Some n \<Rightarrow>
                (case get_alpha d cen n of
                   None \<Rightarrow> None
                 | Some x \<Rightarrow>
                     (if 0 \<le> x \<and> x \<le> 1 \<and> in_triangle pt (line_alpha x d cen) False
                      then Some x else None))))"

text \<open>
  \<^verbatim>\<open>np.sort(a, axis=0)\<close> returns a sorted copy, which the source drops; \<^verbatim>\<open>a\<close> keeps the
  order of the facets, and \<^verbatim>\<open>a[0]\<close> on an empty array raises \<^verbatim>\<open>IndexError\<close>.
\<close>

definition intersectionpoint_on_line ::
  "gamut \<Rightarrow> point list \<Rightarrow> point \<Rightarrow> point \<Rightarrow> error + point" where
  "intersectionpoint_on_line g new_points d cen =
     (let alpha = List.map_filter (facet_alpha new_points d cen) (simplices g)
      in (case alpha of
            [] \<Rightarrow> Inl IndexError
          | a0 # _ \<Rightarrow> Inr (line_alpha a0 d cen)))"

section \<open>Batch membership\<close>

text \<open>
  An array of points of any rank, as \<^verbatim>\<open>is_inside\<close> receives it from \<^verbatim>\<open>c_data.get(sp)\<close>:
  a one-dimensional array is one point; an array of higher rank is the list of its rows,
  kept together with the leading shape of a row (its shape without the last axis), which
  numpy knows also when there are no rows.
\<close>

datatype ndarray = Vec point | Arr "nat list" "ndarray list"

fun np_ndim :: "ndarray \<Rightarrow> nat" where
  "np_ndim (Vec p) = 1"
| "np_ndim (Arr row_shape rows) = length row_shape + 2"

text \<open>\<^verbatim>\<open>np.shape(nda)[:-1]\<close>.\<close>

fun leading_shape :: "ndarray \<Rightarrow> nat list" where
  "leading_shape (Vec p) = []"
| "leading_shape (Arr row_shape rows) = length rows # row_shape"

text \<open>Every row of an array has the shape the array says.\<close>

fun well_shaped :: "ndarray \<Rightarrow> bool" where
  "well_shaped (Vec p) = True"
| "well_shaped (Arr row_shape rows) =
     list_all (\<lambda>r. well_shaped r \<and> leading_shape r = row_shape) rows"

text \<open>
  A boolean array: its shape and its entries by multi-index. \<^verbatim>\<open>np.zeros(shape, bool)\<close> is
  False everywhere.
\<close>

record bool_array =
  ba_shape :: "nat list"
  ba_cells :: "nat list \<Rightarrow> bool"

definition np_zeros :: "nat list \<Rightarrow> bool_array" where
  "np_zeros shp = \<lparr>ba_shape = shp, ba_cells = (\<lambda>k. False)\<rparr>"

text \<open>
  Indexing with a tuple of integers: an index \<^verbatim>\<open>i\<close> on an axis of length \<^verbatim>\<open>n\<close> must have
  \<^verbatim>\<open>-n <= i < n\<close>, negative ones count from the end, and more indices than axes are an
  \<^verbatim>\<open>IndexError\<close>. With fewer indices than axes the assignment fills the whole sub-array.
\<close>

fun resolve_index :: "nat list \<Rightarrow> int list \<Rightarrow> error + nat list" where
  "resolve_index shp [] = Inr []"
| "resolve_index [] (i # is) = Inl IndexError"
| "resolve_index (n # ns) (i # is) =
     (if - int n \<le> i \<and> i < int n then
        (case resolve_index ns is of
           Inl e \<Rightarrow> Inl e
         | Inr r \<Rightarrow> Inr (nat (if i < 0 then i + int n else i) # r))
      else Inl IndexError)"

definition setitem :: "bool_array \<Rightarrow> int list \<Rightarrow> bool \<Rightarrow> error + bool_array" where
  "setitem ba idx v =
     (case resolve_index (ba_shape ba) idx of
        Inl e \<Rightarrow> Inl e
      | Inr pre \<Rightarrow>
          Inr (ba\<lparr>ba_cells := (\<lambda>k. if take (length pre) k = pre then v else ba_cells ba k)\<rparr>))"

text \<open>
  \<^verbatim>\<open>Gamut.traverse_ndarray(nda, indices, bool_array)\<close>. Both arrays are mutated in place, so
  they are passed through. \<open>traverse_rows\<close> is the loop over the rows, with the counter
  \<^verbatim>\<open>numb_of_iterations\<close>. \<^verbatim>\<open>np.nditer\<close> refuses an empty \<^verbatim>\<open>indices\<close> with a
  \<^verbatim>\<open>ValueError\<close>, and writing \<^verbatim>\<open>indices[curr_dim]\<close> beyond its end is an \<^verbatim>\<open>IndexError\<close>.
\<close>

fun traverse_ndarray ::
    "gamut \<Rightarrow> ndarray \<Rightarrow> int list \<times> bool_array \<Rightarrow> error + int list \<times> bool_array"
  and traverse_rows ::
    "gamut \<Rightarrow> ndarray list \<Rightarrow> nat \<Rightarrow> nat \<Rightarrow> int list \<times> bool_array \<Rightarrow>
       error + int list \<times> bool_array" where
  "traverse_ndarray g (Vec p) st =
     (case setitem (snd st) (fst st) (feito_torres g p) of
        Inl e \<Rightarrow> Inl e
      | Inr ba \<Rightarrow> Inr (fst st, ba))"
| "traverse_ndarray g (Arr row_shape rows) st =
     (if fst st = [] then Inl ValueError
      else
        let curr_dim = length (filter (\<lambda>index. index \<noteq> - 1) (fst st))
        in (case traverse_rows g rows curr_dim 0 st of
              Inl e \<Rightarrow> Inl e
            | Inr st' \<Rightarrow>
                (if curr_dim < length (fst st') then Inr ((fst st')[curr_dim := - 1], snd st')
                 else Inl IndexError)))"
| "traverse_rows g [] curr_dim numb_of_iterations st = Inr st"
| "traverse_rows g (nda_minus_one # rest) curr_dim numb_of_iterations st =
     (if curr_dim < length (fst st) then
        (case traverse_ndarray g nda_minus_one
                ((fst st)[curr_dim := int numb_of_iterations], snd st) of
           Inl e \<Rightarrow> Inl e
         | Inr st' \<Rightarrow> traverse_rows g rest curr_dim (Suc numb_of_iterations) st')
      else Inl IndexError)"

text \<open>\<^verbatim>\<open>Gamut.is_inside(sp, c_data)\<close>; \<open>nd_data\<close> is \<^verbatim>\<open>c_data.get(sp)\<close>.\<close>

definition is_inside :: "gamut \<Rightarrow> ndarray \<Rightarrow> error + bool_array" where
  "is_inside g nd_data =
     (case nd_data of
        Vec p \<Rightarrow> Inr \<lparr>ba_shape = [1], ba_cells = (\<lambda>k. k = [0] \<and> feito_torres g p)\<rparr>
      | Arr row_shape rows \<Rightarrow>
          (let indices = replicate (np_ndim nd_data - 1) (- 1);
               bool_arr = np_zeros (leading_shape nd_data)
           in (case traverse_ndarray g nd_data (indices, bool_arr) of
                 Inl e \<Rightarrow> Inl e
               | Inr st \<Rightarrow> Inr (snd st))))"

text \<open>The point of a well-shaped array at a multi-index over its leading shape.\<close>

fun point_at :: "ndarray \<Rightarrow> nat list \<Rightarrow> point option" where
  "point_at (Vec p) [] = Some p"
| "point_at (Vec p) (i # is) = None"
| "point_at (Arr row_shape rows) [] = None"
| "point_at (Arr row_shape rows) (i # is) = (if i < length rows then point_at (rows ! i) is else None)"

section \<open>Notions the statements below use\<close>

text \<open>
  A point on the segment from \<open>a\<close> to \<open>b\<close> in the words of the specification: collinear
  with the segment, in the direction of \<open>b - a\<close> from \<open>a\<close>, and no farther from \<open>a\<close> than
  \<open>b\<close> is.
\<close>

definition point_on_segment :: "point \<Rightarrow> point \<Rightarrow> point \<Rightarrow> bool" where
  "point_on_segment a b p =
     (cross (vsub b a) (vsub p a) = (0, 0, 0) \<and> 0 \<le> dot (vsub p a) (vsub b a) \<and>
      norm3 (vsub p a) \<le> norm3 (vsub b a))"

text \<open>
  A facet faces outward from \<open>c\<close>: its normal \<open>(v1 - v0) \<times> (v2 - v0)\<close> has a non-negative
  dot product with the vector from \<open>c\<close> to the facet's first vertex.
\<close>

definition facing_outward :: "point list \<Rightarrow> point \<Rightarrow> simplex \<Rightarrow> bool" where
  "facing_outward hull_pts c simplex =
     (case simplex of (s0, s1, s2) \<Rightarrow>
        let f0 = hull_pts ! s0; f1 = hull_pts ! s1; f2 = hull_pts ! s2
        in 0 \<le> dot (vsub f0 c) (cross (vsub f1 f0) (vsub f2 f0)))"

text \<open>
  The last test of \<open>in_triangle\<close> without square roots: for vectors \<open>u\<close>, \<open>v\<close>, \<open>w\<close> it says
  that \<open>w\<close> is not zero and \<open>|u| / |w| + |v| / |w| \<le> 1\<close>.
\<close>

definition tri_ratio_ok :: "point \<Rightarrow> point \<Rightarrow> point \<Rightarrow> bool" where
  "tri_ratio_ok u v w =
     (dot w w \<noteq> 0 \<and> dot u u + dot v v \<le> dot w w \<and>
      4 * dot u u * dot v v \<le> (dot w w - dot u u - dot v v)\<^sup>2)"


text \<open>
  The entries of the result array after a traversal of \<open>nd\<close> that started below the
  index prefix \<open>pre\<close>: entries under the prefix hold the membership of their point, all
  others are as before. \<open>written_rows\<close> is the same for the rows from number \<open>n\<close> on, and
  \<open>traversal_ok\<close> is the invariant of \<open>traverse_ndarray\<close>.
\<close>

definition written :: "gamut \<Rightarrow> ndarray \<Rightarrow> nat list \<Rightarrow> (nat list \<Rightarrow> bool) \<Rightarrow> nat list \<Rightarrow> bool" where
  "written g nd pre old k =
     (if take (length pre) k = pre
      then (case point_at nd (drop (length pre) k) of Some p \<Rightarrow> feito_torres g p | None \<Rightarrow> old k)
      else old k)"

definition traversal_ok :: "gamut \<Rightarrow> ndarray \<Rightarrow> bool" where
  "traversal_ok g nd =
     (\<forall>pre sp ba.
        ba_shape ba = sp @ leading_shape nd \<longrightarrow> list_all2 (<) pre sp \<longrightarrow>
        (\<exists>ba'. traverse_ndarray g nd (map int pre @ replicate (length (leading_shape nd)) (- 1), ba)
                 = Inr (map int pre @ replicate (length (leading_shape nd)) (- 1), ba')
             \<and> ba_shape ba' = ba_shape ba
             \<and> (\<forall>k. length k = length (ba_shape ba) \<longrightarrow>
                    ba_cells ba' k = written g nd pre (ba_cells ba) k)))"


definition written_rows ::
  "gamut \<Rightarrow> ndarray list \<Rightarrow> nat \<Rightarrow> nat list \<Rightarrow> (nat list \<Rightarrow> bool) \<Rightarrow> nat list \<Rightarrow> bool" where
  "written_rows g rows n pre old k =
     (if take (length pre) k = pre \<and> n \<le> k ! length pre \<and> k ! length pre < n + length rows
      then (case point_at (rows ! (k ! length pre - n)) (drop (Suc (length pre)) k) of
              Some p \<Rightarrow> feito_torres g p | None \<Rightarrow> old k)
      else old k)"


text \<open>An array of shape \<open>(2, 2, 3)\<close>.\<close>

definition grid_2_2 :: ndarray where
  "grid_2_2 = Arr [2] [Arr [] [Vec (0, 0, 0), Vec (1, 1, 0)],
                       Arr [] [Vec (1 / 2, 1 / 2, 1 / 2), Vec (3, 3, 3)]]"


text \<open>
  The call of the hull primitive that \<open>gamut_init\<close> makes: with the joggle option on the
  linear data when \<open>gamma = 1\<close>, without options on the radius-modified data otherwise.
\<close>

definition primitive_call :: "hull_primitive \<Rightarrow> point list \<Rightarrow> point list \<Rightarrow> real \<Rightarrow> point \<Rightarrow> error + convex_hull" where
  "primitive_call prim data_linear data_native gamma cen =
     (if gamma = 1 then prim ''QJ'' data_linear
      else prim [] (map (modify_radius gamma cen) data_native))"


text \<open>
  A hull primitive that rejects its input with its own exception, as scipy does when it
  is given fewer than four points.
\<close>

definition rejecting_primitive :: hull_primitive where
  "rejecting_primitive opts pts = Inl QhullError"


section \<open>Example hulls\<close>

text \<open>
  The tetrahedron with corners \<open>(2,0,0)\<close>, \<open>(0,2,0)\<close>, \<open>(0,0,0)\<close>, \<open>(0,0,2)\<close> as a hull
  primitive may return it: the second facet is wound towards the inside.
\<close>

definition tetra_raw :: gamut where
  "tetra_raw = \<lparr>hull_points = [(2, 0, 0), (0, 2, 0), (0, 0, 0), (0, 0, 2)],
      vertices = [0, 1, 2, 3],
      simplices = [(0, 1, 3), (0, 1, 2), (0, 3, 2), (1, 2, 3)],
      neighbors = [(3, 2, 1), (3, 2, 0), (3, 1, 0), (2, 0, 1)],
      center = (1 / 2, 1 / 2, 1 / 2)\<rparr>"

text \<open>The same hull after \<open>fix_orientation\<close>.\<close>

definition tetra_gamut :: gamut where
  "tetra_gamut = \<lparr>hull_points = [(2, 0, 0), (0, 2, 0), (0, 0, 0), (0, 0, 2)],
      vertices = [0, 1, 2, 3],
      simplices = [(0, 1, 3), (2, 1, 0), (0, 3, 2), (1, 2, 3)],
      neighbors = [(3, 2, 1), (3, 2, 0), (3, 1, 0), (2, 0, 1)],
      center = (1 / 2, 1 / 2, 1 / 2)\<rparr>"

text \<open>
  A tetrahedron with the coordinate origin strictly inside, every facet wound outward;
  \<open>fix_orientation\<close> leaves it as it is.
\<close>

definition skew_tetra :: gamut where
  "skew_tetra = \<lparr>hull_points = [(3, 0, - 1), (- 1, 2, - 1), (- 2, - 3, - 1), (0, 0, 4)],
      vertices = [0, 1, 2, 3],
      simplices = [(2, 1, 0), (0, 1, 3), (1, 2, 3), (3, 2, 0)],
      neighbors = [(1, 3, 2), (2, 3, 0), (3, 1, 0), (0, 1, 2)],
      center = (0, - 1 / 4, 1 / 4)\<rparr>"

text \<open>
  The same tetrahedron moved by \<open>(0, 0, 6)\<close>: the coordinate origin lies outside, below
  the facet \<open>(2, 1, 0)\<close>.
\<close>

definition far_tetra :: gamut where
  "far_tetra = \<lparr>hull_points = [(3, 0, 5), (- 1, 2, 5), (- 2, - 3, 5), (0, 0, 10)],
      vertices = [0, 1, 2, 3],
      simplices = [(2, 1, 0), (0, 1, 3), (1, 2, 3), (3, 2, 0)],
      neighbors = [(1, 3, 2), (2, 3, 0), (3, 1, 0), (0, 1, 2)],
      center = (0, - 1 / 4, 25 / 4)\<rparr>"

text \<open>
  The cube of half-width 1 centred at the origin, each face cut into two triangles, every
  facet wound outward.
\<close>

definition cube_gamut :: gamut where
  "cube_gamut = \<lparr>hull_points = [(- 1, - 1, - 1), (- 1, - 1, 1), (- 1, 1, - 1), (- 1, 1, 1),
                                  (1, - 1, - 1), (1, - 1, 1), (1, 1, - 1), (1, 1, 1)],
      vertices = [0, 1, 2, 3, 4, 5, 6, 7],
      simplices = [(3, 2, 0), (1, 3, 0), (4, 6, 7), (4, 7, 5), (5, 1, 0), (4, 5, 0),
                   (2, 3, 7), (2, 7, 6), (6, 4, 0), (2, 6, 0), (1, 5, 7), (1, 7, 3)],
      neighbors = [(9, 1, 6), (0, 4, 11), (7, 3, 8), (10, 5, 2), (1, 5, 10), (4, 8, 3),
                   (11, 7, 0), (2, 9, 6), (5, 9, 2), (8, 0, 7), (3, 11, 4), (6, 1, 10)],
      center = (0, 0, 0)\<rparr>"

section \<open>Properties\<close>

subsection \<open>Evaluation without square roots\<close>

lemma dot_self_nonneg: "0 \<le> dot v v"
  by (cases v) auto

lemma norm3_less_iff: "norm3 b < norm3 p \<longleftrightarrow> dot b b < dot p p"
  by (simp add: norm3_def)

lemma norm3_eq_0_iff: "norm3 v = 0 \<longleftrightarrow> dot v v = 0"
  by (simp add: norm3_def)

lemma sqrt_sum_le_iff:
  assumes "0 \<le> x" "0 \<le> y" "0 \<le> d"
  shows "sqrt x + sqrt y \<le> sqrt d \<longleftrightarrow> x + y \<le> d \<and> 4 * x * y \<le> (d - x - y)\<^sup>2"
proof -
  have sq: "(sqrt x + sqrt y)\<^sup>2 = x + y + 2 * sqrt (x * y)"
    using assms by (simp add: power2_sum real_sqrt_mult)
  have "sqrt x + sqrt y \<le> sqrt d \<longleftrightarrow> (sqrt x + sqrt y)\<^sup>2 \<le> (sqrt d)\<^sup>2"
  proof -
    have "0 \<le> sqrt x + sqrt y" "0 \<le> sqrt d" using assms by simp_all
    then show ?thesis using abs_le_square_iff [of "sqrt x + sqrt y" "sqrt d"] by simp
  qed
  also have "\<dots> \<longleftrightarrow> 2 * sqrt (x * y) \<le> d - x - y"
    using assms by (simp add: sq) linarith
  also have "\<dots> \<longleftrightarrow> x + y \<le> d \<and> 4 * x * y \<le> (d - x - y)\<^sup>2"
  proof
    assume h: "2 * sqrt (x * y) \<le> d - x - y"
    have nn: "0 \<le> 2 * sqrt (x * y)" using assms by simp
    then have "0 \<le> d - x - y" using h by linarith
    moreover have "(2 * sqrt (x * y))\<^sup>2 \<le> (d - x - y)\<^sup>2"
      using h nn by (intro power_mono) auto
    then have "4 * x * y \<le> (d - x - y)\<^sup>2"
      using assms by (simp add: power_mult_distrib)
    ultimately show "x + y \<le> d \<and> 4 * x * y \<le> (d - x - y)\<^sup>2" by simp
  next
    assume h: "x + y \<le> d \<and> 4 * x * y \<le> (d - x - y)\<^sup>2"
    then have "(2 * sqrt (x * y))\<^sup>2 \<le> (d - x - y)\<^sup>2"
      using assms by (simp add: power_mult_distrib)
    moreover have "0 \<le> d - x - y" using h by simp
    ultimately show "2 * sqrt (x * y) \<le> d - x - y"
      using power2_le_imp_le by blast
  qed
  finally show ?thesis .
qed

lemma norm_ratio_le_one_iff:
  assumes "norm3 w \<noteq> 0"
  shows "norm3 u / norm3 w + norm3 v / norm3 w \<le> 1 \<longleftrightarrow>
         dot u u + dot v v \<le> dot w w \<and> 4 * dot u u * dot v v \<le> (dot w w - dot u u - dot v v)\<^sup>2"
proof -
  have pos: "0 < norm3 w" using assms by (simp add: norm3_def dot_self_nonneg less_le)
  have "norm3 u / norm3 w + norm3 v / norm3 w \<le> 1 \<longleftrightarrow> norm3 u + norm3 v \<le> norm3 w"
    using pos by (simp add: field_simps)
  then show ?thesis
    unfolding norm3_def using sqrt_sum_le_iff [OF dot_self_nonneg dot_self_nonneg dot_self_nonneg] by simp
qed


lemma in_line_eval:
  "in_line line pt true_interior =
     (if true_interior \<and> (pt = line ! 0 \<or> pt = line ! 1) then False
      else
        let b = vsub (line ! 1) (line ! 0);
            p = vsub pt (line ! 0)
        in if det3 (1, 1, 1) b p \<noteq> 0 then False
           else if dot p b < 0 then False
           else if dot b b < dot p p then False
           else True)"
  by (simp add: in_line_def Let_def norm3_less_iff)

lemma in_triangle_eval:
  "in_triangle triangle P true_interior =
     (if true_interior \<and> (in_line (take 2 triangle) P False \<or>
                           in_line (take 2 (drop 1 triangle)) P False \<or>
                           in_line [triangle ! 0, triangle ! 2] P False) then False
      else
        let b = vsub (triangle ! 1) (triangle ! 0);
            c = vsub (triangle ! 2) (triangle ! 0);
            p = vsub P (triangle ! 0)
        in if triangle ! 0 = triangle ! 1 then in_line [triangle ! 0, triangle ! 1] p False
           else if triangle ! 0 = triangle ! 2 then in_line [triangle ! 0, triangle ! 2] p False
           else if triangle ! 1 = triangle ! 2 then in_line [triangle ! 1, triangle ! 2] p False
           else if dot (cross b c) p \<noteq> 0 then False
           else if dot (cross c p) (cross c b) < 0 then False
           else if dot (cross b p) (cross b c) < 0 then False
           else tri_ratio_ok (cross c p) (cross b p) (cross b c))"
  unfolding in_triangle_def Let_def tri_ratio_ok_def
  using norm_ratio_le_one_iff [of "cross (vsub (triangle ! 1) (triangle ! 0)) (vsub (triangle ! 2) (triangle ! 0))"]
  by (auto simp: norm3_eq_0_iff)

lemma plane_den_alg:
  fixes s :: real
  assumes "s \<noteq> 0"
  shows "d0 * (k0 / s) - c0 * (k0 / s) + d1 * (k1 / s) - c1 * (k1 / s) + d2 * (k2 / s) - c2 * (k2 / s)
        = ((d0 - c0) * k0 + (d1 - c1) * k1 + (d2 - c2) * k2) / s"
  using assms by (simp add: field_simps)

lemma plane_num_alg:
  fixes s :: real
  assumes "s \<noteq> 0"
  shows "(a0 * (k0 / s) + a1 * (k1 / s) + a2 * (k2 / s)) - c0 * (k0 / s) - c1 * (k1 / s) - c2 * (k2 / s)
        = ((a0 - c0) * k0 + (a1 - c1) * k1 + (a2 - c2) * k2) / s"
  using assms by (simp add: field_simps)

lemma plane_alpha:
  assumes n2: "cross (vsub p2 p0) (vsub (a0, a1, a2) p0) = (k0, k1, k2)"
  shows "(case find_plane [p0, (a0, a1, a2), p2] of
            None \<Rightarrow> None
          | Some n \<Rightarrow> get_alpha (d0, d1, d2) (c0, c1, c2) n) =
         (if k0 * k0 + k1 * k1 + k2 * k2 = 0 \<or> (d0 - c0) * k0 + (d1 - c1) * k1 + (d2 - c2) * k2 = 0
          then None
          else Some (((a0 - c0) * k0 + (a1 - c1) * k1 + (a2 - c2) * k2) /
                     ((d0 - c0) * k0 + (d1 - c1) * k1 + (d2 - c2) * k2)))"
proof (cases "k0 * k0 + k1 * k1 + k2 * k2 = 0")
  case True
  then show ?thesis by (simp add: find_plane_def Let_def n2 norm3_def)
next
  case False
  define s where "s = sqrt (k0 * k0 + k1 * k1 + k2 * k2)"
  have s: "s \<noteq> 0" using False by (simp add: s_def)
  have fp: "find_plane [p0, (a0, a1, a2), p2] =
      Some (k0 / s, k1 / s, k2 / s, a0 * (k0 / s) + a1 * (k1 / s) + a2 * (k2 / s))"
    using False by (simp add: find_plane_def Let_def n2 norm3_def s_def)
  have quot: "((a0 - c0) * k0 + (a1 - c1) * k1 + (a2 - c2) * k2) / s /
      (((d0 - c0) * k0 + (d1 - c1) * k1 + (d2 - c2) * k2) / s) =
      ((a0 - c0) * k0 + (a1 - c1) * k1 + (a2 - c2) * k2) /
      ((d0 - c0) * k0 + (d1 - c1) * k1 + (d2 - c2) * k2)"
    using s by simp
  have zero: "((d0 - c0) * k0 + (d1 - c1) * k1 + (d2 - c2) * k2) / s = 0 \<longleftrightarrow>
      (d0 - c0) * k0 + (d1 - c1) * k1 + (d2 - c2) * k2 = 0"
    using s by simp
  show ?thesis
    unfolding fp option.case get_alpha.simps Let_def plane_den_alg [OF s] plane_num_alg [OF s]
      quot zero
    using False by simp
qed

lemma facet_alpha_eval:
  "facet_alpha new_points d cen (m0, m1, m2) =
     (let p0 = new_points ! m0; p1 = new_points ! m1; p2 = new_points ! m2;
          n2 = cross (vsub p2 p0) (vsub p1 p0);
          den = dot (vsub d cen) n2;
          x = dot (vsub p1 cen) n2 / den
      in if dot n2 n2 = 0 \<or> den = 0 then None
         else if 0 \<le> x \<and> x \<le> 1 \<and> in_triangle [p0, p1, p2] (line_alpha x d cen) False
         then Some x else None)"
proof -
  obtain d0 d1 d2 where d: "d = (d0, d1, d2)" by (cases d) auto
  obtain c0 c1 c2 where c: "cen = (c0, c1, c2)" by (cases cen) auto
  obtain a0 a1 a2 where p1: "new_points ! m1 = (a0, a1, a2)" by (cases "new_points ! m1") auto
  obtain k0 k1 k2 where n2: "cross (vsub (new_points ! m2) (new_points ! m0)) (vsub (a0, a1, a2) (new_points ! m0)) = (k0, k1, k2)"
    by (cases "cross (vsub (new_points ! m2) (new_points ! m0)) (vsub (a0, a1, a2) (new_points ! m0))") auto
  let ?pt = "[new_points ! m0, (a0, a1, a2), new_points ! m2]"
  let ?den = "(d0 - c0) * k0 + (d1 - c1) * k1 + (d2 - c2) * k2"
  let ?num = "(a0 - c0) * k0 + (a1 - c1) * k1 + (a2 - c2) * k2"
  have fa: "facet_alpha new_points d cen (m0, m1, m2) =
      (case (case find_plane ?pt of None \<Rightarrow> None | Some n \<Rightarrow> get_alpha (d0, d1, d2) (c0, c1, c2) n) of
         None \<Rightarrow> None
       | Some x \<Rightarrow> if 0 \<le> x \<and> x \<le> 1 \<and> in_triangle ?pt (line_alpha x d cen) False
                   then Some x else None)"
    by (simp add: facet_alpha_def Let_def p1 d c split: option.splits)
  have rhs_den: "dot (vsub d cen) (k0, k1, k2) = ?den" by (simp add: d c)
  have rhs_num: "dot (vsub (a0, a1, a2) cen) (k0, k1, k2) = ?num" by (simp add: c)
  have rhs_nn: "dot (k0, k1, k2) (k0, k1, k2) = k0 * k0 + k1 * k1 + k2 * k2" by simp
  show ?thesis
    unfolding fa plane_alpha [OF n2] Let_def p1 n2 rhs_den rhs_num rhs_nn
    by simp
qed


lemmas geo_eval = in_line_eval in_triangle_eval tri_ratio_ok_def Let_def line_alpha_def

subsection \<open>The orientation sign\<close>

text \<open>
  Claim C4, as the code has it: \<open>sign\<close> returns the negated sign of the 4x4 determinant
  whose columns are the four points and whose last row is ones. It is \<open>+1\<close> exactly when
  that determinant is negative, \<open>0\<close> exactly when it is zero and \<open>-1\<close> exactly when it is
  positive.
\<close>

theorem sign_negates_determinant:
  "(sign t = 1 \<longleftrightarrow> sign_matrix_det t < 0) \<and>
   (sign t = 0 \<longleftrightarrow> sign_matrix_det t = 0) \<and>
   (sign t = - 1 \<longleftrightarrow> 0 < sign_matrix_det t)"
  by (simp add: sign_def np_sign_def)

text \<open>
  Claim C4 as stated fails: for the tetrahedron \<open>(0,0,0), (1,0,0), (0,0,1), (0,1,0)\<close> the
  determinant is positive and \<open>sign\<close> returns \<open>-1\<close>, not \<open>+1\<close>.
\<close>

theorem sign_positive_determinant_counterexample:
  "0 < sign_matrix_det [(0, 0, 0), (1, 0, 0), (0, 0, 1), (0, 1, 0)] \<and>
   sign [(0, 0, 0), (1, 0, 0), (0, 0, 1), (0, 1, 0)] = - 1"
  by (simp add: sign_def np_sign_def sign_matrix_det_def)

subsection \<open>Points on a segment\<close>

text \<open>
  Claim C3: \<open>in_line\<close> should accept exactly the points on the segment. For the segment
  from \<open>(0,0,0)\<close> to \<open>(1,1,1)\<close> and the point \<open>(1,0,0)\<close> it returns True although the point
  is not collinear with the segment: the test \<^verbatim>\<open>det([[1,1,1], b, p]) != 0\<close> only rejects
  points whose cross product with \<open>b\<close> has a non-zero coordinate sum.
\<close>

theorem in_line_accepts_point_off_the_line:
  "in_line [(0, 0, 0), (1, 1, 1)] (1, 0, 0) False = True \<and>
   \<not> point_on_segment (0, 0, 0) (1, 1, 1) (1, 0, 0)"
  by (simp add: in_line_def point_on_segment_def norm3_def)

subsection \<open>The centre of mass\<close>

lemma vsum_foldl:
  "foldl vadd acc ps =
     vadd acc (sum_list (map fst ps), sum_list (map (\<lambda>p. fst (snd p)) ps),
               sum_list (map (\<lambda>p. snd (snd p)) ps))"
  by (induction ps arbitrary: acc) (auto simp: algebra_simps)

lemma vsum_components:
  "vsum ps = (sum_list (map fst ps), sum_list (map (\<lambda>p. fst (snd p)) ps),
              sum_list (map (\<lambda>p. snd (snd p)) ps))"
  by (simp add: vsum_def vsum_foldl)

lemma sum_list_shift:
  "sum_list (map (\<lambda>p. f p - (k::real)) ps) = sum_list (map f ps) - real (length ps) * k"
  by (induction ps) (auto simp: algebra_simps)


text \<open>
  Claim C10: \<open>center_of_mass\<close> returns the arithmetic mean of the rows and leaves the
  caller's array with that mean subtracted from every row, so that the centroid of the
  array after the call is the origin.
\<close>

theorem center_of_mass_shifts_argument:
  assumes "pts \<noteq> []"
  shows "fst (center_of_mass pts) =
           (sum_list (map fst pts) / real (length pts),
            sum_list (map (\<lambda>p. fst (snd p)) pts) / real (length pts),
            sum_list (map (\<lambda>p. snd (snd p)) pts) / real (length pts))
         \<and> length (snd (center_of_mass pts)) = length pts
         \<and> (\<forall>i < length pts. snd (center_of_mass pts) ! i = vsub (pts ! i) (fst (center_of_mass pts)))
         \<and> fst (center_of_mass (snd (center_of_mass pts))) = (0, 0, 0)"
proof -
  let ?n = "real (length pts)"
  obtain c0 c1 c2 where cm: "fst (center_of_mass pts) = (c0, c1, c2)"
    by (cases "fst (center_of_mass pts)") auto
  have mean: "fst (center_of_mass pts) =
      (sum_list (map fst pts) / ?n, sum_list (map (\<lambda>p. fst (snd p)) pts) / ?n,
       sum_list (map (\<lambda>p. snd (snd p)) pts) / ?n)"
    by (simp add: center_of_mass_def Let_def vsum_components)
  have shifted: "snd (center_of_mass pts) = map (\<lambda>p. vsub p (c0, c1, c2)) pts"
    using cm by (simp add: center_of_mass_def Let_def)
  have n0: "?n \<noteq> 0" using assms by simp
  have c: "c0 = sum_list (map fst pts) / ?n"
    "c1 = sum_list (map (\<lambda>p. fst (snd p)) pts) / ?n"
    "c2 = sum_list (map (\<lambda>p. snd (snd p)) pts) / ?n"
    using mean cm by auto
  have f0: "map fst (map (\<lambda>p. vsub p (c0, c1, c2)) pts) = map (\<lambda>p. fst p - c0) pts"
    by (auto split: prod.splits)
  have f1: "map (\<lambda>p. fst (snd p)) (map (\<lambda>p. vsub p (c0, c1, c2)) pts) = map (\<lambda>p. fst (snd p) - c1) pts"
    by (auto split: prod.splits)
  have f2: "map (\<lambda>p. snd (snd p)) (map (\<lambda>p. vsub p (c0, c1, c2)) pts) = map (\<lambda>p. snd (snd p) - c2) pts"
    by (auto split: prod.splits)
  have z: "vsum (map (\<lambda>p. vsub p (c0, c1, c2)) pts) = (0, 0, 0)"
    unfolding vsum_components f0 f1 f2 sum_list_shift using n0 c by simp
  have again: "fst (center_of_mass (snd (center_of_mass pts))) = (0, 0, 0)"
    unfolding shifted by (simp add: center_of_mass_def Let_def z)
  show ?thesis using mean again cm by (simp add: shifted)
qed

theorem center_of_mass_shifts_argument_witness:
  "[(0, 0, 0), (2, 4, 6)] \<noteq> ([] :: point list)
   \<and> center_of_mass [(0, 0, 0), (2, 4, 6)] = ((1, 2, 3), [(-1, -2, -3), (1, 2, 3)])
   \<and> fst (center_of_mass (snd (center_of_mass [(0, 0, 0), (2, 4, 6)]))) = (0, 0, 0)"
  using center_of_mass_shifts_argument [of "[(0, 0, 0), (2, 4, 6)]"]
  by (simp add: center_of_mass_def vsum_def Let_def)

subsection \<open>Fixing the orientation\<close>

lemma swap_flips_components:
  "dot (vsub (x2, y2, z2) (c0, c1, c2)) (cross (vsub (x1, y1, z1) (x2, y2, z2)) (vsub (x0, y0, z0) (x2, y2, z2))) =
   - dot (vsub (x0, y0, z0) (c0, c1, c2)) (cross (vsub (x1, y1, z1) (x0, y0, z0)) (vsub (x2, y2, z2) (x0, y0, z0)))"
  by (simp add: algebra_simps)

lemma swap_flips:
  "dot (vsub f2 c) (cross (vsub f1 f2) (vsub f0 f2)) = - dot (vsub f0 c) (cross (vsub f1 f0) (vsub f2 f0))"
  proof -
  obtain x0 y0 z0 where f0: "f0 = (x0, y0, z0)" by (cases f0) auto
  obtain x1 y1 z1 where f1: "f1 = (x1, y1, z1)" by (cases f1) auto
  obtain x2 y2 z2 where f2: "f2 = (x2, y2, z2)" by (cases f2) auto
  obtain c0 c1 c2 where c: "c = (c0, c1, c2)" by (cases c) auto
  show ?thesis unfolding f0 f1 f2 c by (rule swap_flips_components)
qed

lemma fix_simplex_outward: "facing_outward (hull_points g) c (fix_simplex g c s)"
proof -
  obtain s0 s1 s2 where s: "s = (s0, s1, s2)" by (cases s) auto
  let ?f0 = "hull_points g ! s0" and ?f1 = "hull_points g ! s1" and ?f2 = "hull_points g ! s2"
  let ?d = "dot (vsub ?f0 c) (cross (vsub ?f1 ?f0) (vsub ?f2 ?f0))"
  show ?thesis
  proof (cases "?d < 0")
    case True
    then have "fix_simplex g c s = (s2, s1, s0)"
      by (simp add: s fix_simplex_def get_coordinates_def)
    moreover have "0 \<le> dot (vsub ?f2 c) (cross (vsub ?f1 ?f2) (vsub ?f0 ?f2))"
      using True swap_flips [of ?f2 c ?f1 ?f0] by linarith
    ultimately show ?thesis by (simp add: facing_outward_def)
  next
    case False
    then have "fix_simplex g c s = (s0, s1, s2)"
      by (simp add: s fix_simplex_def get_coordinates_def)
    with False show ?thesis by (simp add: facing_outward_def)
  qed
qed

lemma fix_simplex_id: "facing_outward (hull_points g) c s \<Longrightarrow> fix_simplex g c s = s"
  by (cases s) (auto simp: facing_outward_def fix_simplex_def get_coordinates_def Let_def)

lemma fix_simplex_points: "hull_points g' = hull_points g \<Longrightarrow> fix_simplex g' c s = fix_simplex g c s"
  by (cases s) (simp add: fix_simplex_def)

text \<open>
  Claim C9: \<open>fix_orientation\<close> keeps the hull's points, vertices, neighbours and centre, and
  keeps every facet or swaps its first and last vertex index. After it every facet's normal
  \<open>(v1 - v0) \<times> (v2 - v0)\<close> has a non-negative dot product with the vector from the centre
  of mass of the hull's vertices to the facet, a second run changes nothing, and a hull
  whose facets all face outward already is returned as it is.
\<close>

theorem fix_orientation_idempotent:
  "hull_points (fix_orientation g) = hull_points g
   \<and> vertices (fix_orientation g) = vertices g
   \<and> neighbors (fix_orientation g) = neighbors g
   \<and> center (fix_orientation g) = center g
   \<and> list_all2 (\<lambda>s' s. s' = s \<or> (case s of (s0, s1, s2) \<Rightarrow> s' = (s2, s1, s0)))
        (simplices (fix_orientation g)) (simplices g)
   \<and> (\<forall>s \<in> set (simplices (fix_orientation g)).
        facing_outward (hull_points (fix_orientation g))
          (fst (center_of_mass (get_coordinates (hull_points (fix_orientation g))
                                  (vertices (fix_orientation g))))) s)
   \<and> fix_orientation (fix_orientation g) = fix_orientation g
   \<and> ((\<forall>s \<in> set (simplices g).
          facing_outward (hull_points g)
            (fst (center_of_mass (get_coordinates (hull_points g) (vertices g)))) s)
        \<longrightarrow> fix_orientation g = g)"
proof -
  let ?g' = "fix_orientation g"
  let ?c = "fst (center_of_mass (get_coordinates (hull_points g) (vertices g)))"
  have pts: "hull_points ?g' = hull_points g" and vs: "vertices ?g' = vertices g"
    and nb: "neighbors ?g' = neighbors g" and ce: "center ?g' = center g"
    by (simp_all add: fix_orientation_def Let_def)
  have simp_g': "simplices ?g' = map (fix_simplex g ?c) (simplices g)"
    by (simp add: fix_orientation_def Let_def)
  have kept: "fix_simplex g ?c s = s \<or> (case s of (s0, s1, s2) \<Rightarrow> fix_simplex g ?c s = (s2, s1, s0))" for s
    by (cases s) (simp add: fix_simplex_def Let_def)
  have frame: "list_all2 (\<lambda>s' s. s' = s \<or> (case s of (s0, s1, s2) \<Rightarrow> s' = (s2, s1, s0)))
        (simplices ?g') (simplices g)"
    unfolding simp_g' list_all2_map1 by (rule list_all2_refl) (rule kept)
  have out: "\<forall>s \<in> set (simplices ?g'). facing_outward (hull_points g) ?c s"
    by (auto simp: simp_g' fix_simplex_outward)
  have "map (fix_simplex ?g' ?c) (simplices ?g') = simplices ?g'"
    using out by (intro map_idI) (simp add: fix_simplex_id pts)
  then have idem: "fix_orientation ?g' = ?g'"
    unfolding fix_orientation_def [of ?g'] Let_def pts vs by simp
  have fixpoint: "fix_orientation g = g"
    if "\<forall>s \<in> set (simplices g). facing_outward (hull_points g) ?c s"
  proof -
    have "map (fix_simplex g ?c) (simplices g) = simplices g"
      using that by (intro map_idI) (simp add: fix_simplex_id)
    then show ?thesis unfolding fix_orientation_def Let_def by simp
  qed
  from pts vs nb ce frame out idem fixpoint show ?thesis
    unfolding pts vs by blast
qed

theorem fix_orientation_idempotent_witness:
  "simplices tetra_raw = [(0, 1, 3), (0, 1, 2), (0, 3, 2), (1, 2, 3)]
   \<and> simplices (fix_orientation tetra_raw) = [(0, 1, 3), (2, 1, 0), (0, 3, 2), (1, 2, 3)]
   \<and> hull_points (fix_orientation tetra_raw) = hull_points tetra_raw
   \<and> vertices (fix_orientation tetra_raw) = vertices tetra_raw
   \<and> facing_outward (hull_points tetra_raw) (1 / 2, 1 / 2, 1 / 2) (0, 1, 3)
   \<and> facing_outward (hull_points tetra_raw) (1 / 2, 1 / 2, 1 / 2) (2, 1, 0)
   \<and> facing_outward (hull_points tetra_raw) (1 / 2, 1 / 2, 1 / 2) (0, 3, 2)
   \<and> facing_outward (hull_points tetra_raw) (1 / 2, 1 / 2, 1 / 2) (1, 2, 3)
   \<and> \<not> facing_outward (hull_points tetra_raw) (1 / 2, 1 / 2, 1 / 2) (0, 1, 2)
   \<and> fix_orientation (fix_orientation tetra_raw) = fix_orientation tetra_raw
   \<and> fix_orientation tetra_gamut = tetra_gamut"
proof -
  have fixed: "fix_orientation tetra_raw = tetra_gamut"
    by (simp add: tetra_raw_def tetra_gamut_def fix_orientation_def fix_simplex_def
        get_coordinates_def center_of_mass_def vsum_def Let_def)
  have c: "fst (center_of_mass (get_coordinates (hull_points tetra_gamut) (vertices tetra_gamut)))
           = (1 / 2, 1 / 2, 1 / 2)"
    by (simp add: tetra_gamut_def get_coordinates_def center_of_mass_def vsum_def Let_def)
  have pts: "hull_points tetra_gamut = hull_points tetra_raw"
    by (simp add: tetra_gamut_def tetra_raw_def)
  have raw: "simplices tetra_raw = [(0, 1, 3), (0, 1, 2), (0, 3, 2), (1, 2, 3)]"
    by (simp add: tetra_raw_def)
  have gam: "simplices tetra_gamut = [(0, 1, 3), (2, 1, 0), (0, 3, 2), (1, 2, 3)]"
    by (simp add: tetra_gamut_def)
  have inward: "\<not> facing_outward (hull_points tetra_raw) (1 / 2, 1 / 2, 1 / 2) (0, 1, 2)"
    by (simp add: tetra_raw_def facing_outward_def)
  from fix_orientation_idempotent [of tetra_raw]
  have a: "hull_points (fix_orientation tetra_raw) = hull_points tetra_raw"
    and b: "vertices (fix_orientation tetra_raw) = vertices tetra_raw"
    and idem: "fix_orientation (fix_orientation tetra_raw) = fix_orientation tetra_raw"
    by blast+
  from fix_orientation_idempotent [of tetra_raw]
  have out: "\<forall>s \<in> set (simplices tetra_gamut).
        facing_outward (hull_points tetra_gamut) (1 / 2, 1 / 2, 1 / 2) s"
    unfolding fixed c by blast
  from fix_orientation_idempotent [of tetra_gamut] out
  have same: "fix_orientation tetra_gamut = tetra_gamut"
    unfolding c by blast
  from out have outs: "facing_outward (hull_points tetra_raw) (1 / 2, 1 / 2, 1 / 2) (0, 1, 3)"
    "facing_outward (hull_points tetra_raw) (1 / 2, 1 / 2, 1 / 2) (2, 1, 0)"
    "facing_outward (hull_points tetra_raw) (1 / 2, 1 / 2, 1 / 2) (0, 3, 2)"
    "facing_outward (hull_points tetra_raw) (1 / 2, 1 / 2, 1 / 2) (1, 2, 3)"
    unfolding gam pts by simp_all
  from raw gam a b outs inward idem same show ?thesis
    unfolding fixed by (simp only: simp_thms)
qed

subsection \<open>The membership test\<close>

lemmas ft_eval = feito_torres_def get_coordinates_def facet_update_def credit_vertex_def
  middle_vertex_def interior_def is_coplanar_def true_shape_def uniques_of_def np_delete_def
  in_polygon_def in_tetrahedron_def allclose_def isclose_def sign_def sign_matrix_det_def
  np_sign_def origin_def in1d_def geo_eval delaunay_find_simplex_def orient3_def
  power2_eq_square

text \<open>
  Claim C1: a query point on a hull facet, on its edges and at its vertices as well as in
  its relative interior, should make \<open>feito_torres\<close> return True. On the oriented
  tetrahedron with the origin inside, the centroid \<open>(2/3, 2/3, 2/3)\<close> of the facet
  \<open>(0, 1, 3)\<close> is reported inside, but the point \<open>(9/4, 0, 1/4)\<close> on the facet's edge between
  the vertices \<open>(3, 0, -1)\<close> and \<open>(0, 0, 4)\<close>, which passes the interior test with edges
  included, is reported outside. On the same tetrahedron moved away from the origin, the
  hull vertex \<open>(3, 0, 5)\<close> of the facet \<open>(2, 1, 0)\<close> passes the test with edges included and
  is reported outside: the facets \<open>(2, 1, 0)\<close> and \<open>(0, 1, 3)\<close> credit the vertex with \<open>-1\<close>
  and \<open>+1\<close>, the other two facets skip it.
\<close>

theorem facet_boundary_points_reported_outside:
  "fix_orientation skew_tetra = skew_tetra
   \<and> (0, 1, 3) \<in> set (simplices skew_tetra)
   \<and> feito_torres skew_tetra (2 / 3, 2 / 3, 2 / 3)
   \<and> interior (get_coordinates (hull_points skew_tetra) [0, 1, 3]) (9 / 4, 0, 1 / 4) False
   \<and> \<not> feito_torres skew_tetra (9 / 4, 0, 1 / 4)
   \<and> fix_orientation far_tetra = far_tetra
   \<and> (2, 1, 0) \<in> set (simplices far_tetra)
   \<and> hull_points far_tetra ! 0 = (3, 0, 5)
   \<and> interior (get_coordinates (hull_points far_tetra) [2, 1, 0]) (3, 0, 5) False
   \<and> \<not> feito_torres far_tetra (3, 0, 5)"
proof -
  have o1: "fix_orientation skew_tetra = skew_tetra"
    by (simp add: skew_tetra_def fix_orientation_def fix_simplex_def get_coordinates_def
        center_of_mass_def vsum_def Let_def)
  have o2: "fix_orientation far_tetra = far_tetra"
    by (simp add: far_tetra_def fix_orientation_def fix_simplex_def get_coordinates_def
        center_of_mass_def vsum_def Let_def)
  have rest: "(0, 1, 3) \<in> set (simplices skew_tetra)
   \<and> feito_torres skew_tetra (2 / 3, 2 / 3, 2 / 3)
   \<and> interior (get_coordinates (hull_points skew_tetra) [0, 1, 3]) (9 / 4, 0, 1 / 4) False
   \<and> \<not> feito_torres skew_tetra (9 / 4, 0, 1 / 4)
   \<and> (2, 1, 0) \<in> set (simplices far_tetra)
   \<and> hull_points far_tetra ! 0 = (3, 0, 5)
   \<and> interior (get_coordinates (hull_points far_tetra) [2, 1, 0]) (3, 0, 5) False
   \<and> \<not> feito_torres far_tetra (3, 0, 5)"
    by (simp add: skew_tetra_def far_tetra_def ft_eval)
  from o1 o2 rest show ?thesis by (simp only: simp_thms)
qed

text \<open>
  Claim C2: the midpoint of a hull edge should be reported inside, and no vertex should be
  credited twice. On the oriented tetrahedron with the origin inside, the midpoint
  \<open>(1, 1, -1)\<close> of the edge between the vertices 0 and 1 is reported outside, also with the
  edge's two facets exchanged in the facet list. For the query point equal to vertex 1,
  the facet \<open>(2, 1, 0)\<close> credits the vertex as its middle vertex and records the coordinate
  \<open>2\<close>, and the facet \<open>(1, 2, 3)\<close> credits it again as its first vertex and records the
  index \<open>1\<close>: the accumulator is 2.
\<close>

theorem edge_midpoint_reported_outside:
  "fix_orientation skew_tetra = skew_tetra
   \<and> hull_points skew_tetra ! 0 = (3, 0, - 1) \<and> hull_points skew_tetra ! 1 = (- 1, 2, - 1)
   \<and> (1, 1, - 1) = vdiv (vadd (3, 0, - 1) (- 1, 2, - 1)) 2
   \<and> feito_torres skew_tetra (1, 1, - 1) = False
   \<and> feito_torres (skew_tetra\<lparr>simplices := [(0, 1, 3), (2, 1, 0), (1, 2, 3), (3, 2, 0)]\<rparr>)
        (1, 1, - 1) = False
   \<and> facet_update (- 1, 2, - 1) (1, 2, 3) (get_coordinates (hull_points skew_tetra) [1, 2, 3])
       (facet_update (- 1, 2, - 1) (0, 1, 3) (get_coordinates (hull_points skew_tetra) [0, 1, 3])
         (facet_update (- 1, 2, - 1) (2, 1, 0) (get_coordinates (hull_points skew_tetra) [2, 1, 0])
            \<lparr>inclusion = 0, v_plus = [], v_minus = []\<rparr>))
       = \<lparr>inclusion = 2, v_plus = [2, 1], v_minus = []\<rparr>"
proof -
  have a: "fix_orientation skew_tetra = skew_tetra"
    by (simp add: skew_tetra_def fix_orientation_def fix_simplex_def get_coordinates_def
        center_of_mass_def vsum_def Let_def)
  have b: "hull_points skew_tetra ! 0 = (3, 0, - 1)" "hull_points skew_tetra ! 1 = (- 1, 2, - 1)"
    "(1, 1, - 1) = vdiv (vadd (3, 0, - 1) (- 1, 2, - 1)) 2"
    by (simp_all add: skew_tetra_def)
  have c: "feito_torres skew_tetra (1, 1, - 1) = False"
    by (simp add: skew_tetra_def ft_eval)
  have d: "feito_torres (skew_tetra\<lparr>simplices := [(0, 1, 3), (2, 1, 0), (1, 2, 3), (3, 2, 0)]\<rparr>)
        (1, 1, - 1) = False"
    by (simp add: skew_tetra_def ft_eval)
  have e: "facet_update (- 1, 2, - 1) (1, 2, 3) (get_coordinates (hull_points skew_tetra) [1, 2, 3])
       (facet_update (- 1, 2, - 1) (0, 1, 3) (get_coordinates (hull_points skew_tetra) [0, 1, 3])
         (facet_update (- 1, 2, - 1) (2, 1, 0) (get_coordinates (hull_points skew_tetra) [2, 1, 0])
            \<lparr>inclusion = 0, v_plus = [], v_minus = []\<rparr>))
       = \<lparr>inclusion = 2, v_plus = [2, 1], v_minus = []\<rparr>"
    by (simp add: skew_tetra_def ft_eval)
  from a b c d e show ?thesis by (simp only:) 
qed

subsection \<open>Batch membership\<close>

lemma resolve_index_nat:
  "list_all2 (<) pre sp \<Longrightarrow> resolve_index sp (map int pre) = Inr pre"
  by (induction pre sp rule: list_all2_induct) auto

lemma curr_dim_count:
  "length (filter (\<lambda>index. index \<noteq> - 1) (map int pre @ replicate m (- 1))) = length pre"
  by (induction pre) auto

lemma point_at_length:
  "well_shaped nd \<Longrightarrow> point_at nd k = Some p \<Longrightarrow> length k = length (leading_shape nd)"
proof (induction nd arbitrary: k)
  case (Vec q)
  then show ?case by (cases k) auto
next
  case (Arr rs rows)
  show ?case
  proof (cases k)
    case Nil
    with Arr.prems show ?thesis by simp
  next
    case (Cons i is')
    with Arr.prems have i: "i < length rows" and pa: "point_at (rows ! i) is' = Some p"
      by (auto split: if_splits)
    from i have mem: "rows ! i \<in> set rows" by simp
    with Arr.prems(1) have ws: "well_shaped (rows ! i)" and ls: "leading_shape (rows ! i) = rs"
      by (auto simp: list_all_iff)
    from Arr.IH [OF mem ws pa] ls Cons show ?thesis by simp
  qed
qed

lemma point_at_defined:
  "well_shaped nd \<Longrightarrow> list_all2 (<) k (leading_shape nd) \<Longrightarrow> \<exists>p. point_at nd k = Some p"
proof (induction nd arbitrary: k)
  case (Vec q)
  then show ?case by (cases q) simp
next
  case (Arr rs rows)
  from Arr.prems(2) obtain i is' where k: "k = i # is'" and i: "i < length rows"
    and rest: "list_all2 (<) is' rs"
    by (auto simp: list_all2_Cons2)
  from i have mem: "rows ! i \<in> set rows" by simp
  with Arr.prems(1) have ws: "well_shaped (rows ! i)" and ls: "leading_shape (rows ! i) = rs"
    by (auto simp: list_all_iff)
  from Arr.IH [OF mem ws] rest ls obtain p where "point_at (rows ! i) is' = Some p" by blast
  with k i have "point_at (Arr rs rows) k = Some p" by simp
  then show ?case by blast
qed

lemma traversal_Vec: "traversal_ok g (Vec p)"
  unfolding traversal_ok_def
proof (intro allI impI)
  fix pre sp and ba :: bool_array
  assume sh: "ba_shape ba = sp @ leading_shape (Vec p)" and lt: "list_all2 (<) pre sp"
  from lt have len: "length pre = length sp" by (rule list_all2_lengthD)
  have r: "resolve_index (ba_shape ba) (map int pre) = Inr pre"
    using sh lt by (simp add: resolve_index_nat)
  show "\<exists>ba'. traverse_ndarray g (Vec p) (map int pre @ replicate (length (leading_shape (Vec p))) (- 1), ba)
                 = Inr (map int pre @ replicate (length (leading_shape (Vec p))) (- 1), ba')
             \<and> ba_shape ba' = ba_shape ba
             \<and> (\<forall>k. length k = length (ba_shape ba) \<longrightarrow>
                    ba_cells ba' k = written g (Vec p) pre (ba_cells ba) k)"
    using sh len by (auto simp: setitem_def r written_def)
qed


lemma take_Suc_prefix:
  assumes "length pre < length k"
  shows "take (Suc (length pre)) k = pre @ [n] \<longleftrightarrow> take (length pre) k = pre \<and> k ! length pre = n"
  using assms by (simp add: take_Suc_conv_app_nth)

lemma written_step:
  assumes len: "length pre < length k"
  shows "written_rows g rest (Suc n) pre (written g r (pre @ [n]) old) k
         = written_rows g (r # rest) n pre old k"
proof (cases "take (length pre) k = pre")
  case False
  then show ?thesis
    using take_Suc_prefix [OF len, of n]
    by (simp add: written_rows_def written_def)
next
  case True
  note pre = this
  show ?thesis
  proof (cases "k ! length pre = n")
    case True
    then show ?thesis
      using pre take_Suc_prefix [OF len, of n]
      by (simp add: written_rows_def written_def)
  next
    case False
    then have np: "take (Suc (length pre)) k \<noteq> pre @ [n]"
      using take_Suc_prefix [OF len, of n] by simp
    have w: "written g r (pre @ [n]) old k = old k"
      using np by (simp add: written_def)
    show ?thesis
    proof (cases "Suc n \<le> k ! length pre \<and> k ! length pre < Suc n + length rest")
      case True
      then have idx: "k ! length pre - n = Suc (k ! length pre - Suc n)" by arith
      have c1: "take (length pre) k = pre \<and> Suc n \<le> k ! length pre \<and>
                k ! length pre < Suc n + length rest"
        using True pre by simp
      have c2: "take (length pre) k = pre \<and> n \<le> k ! length pre \<and>
                k ! length pre < n + length (r # rest)"
        using True pre by simp
      show ?thesis
        unfolding written_rows_def if_P [OF c1] if_P [OF c2] w idx by simp
    next
      case False
      with \<open>k ! length pre \<noteq> n\<close> have out: "\<not> (n \<le> k ! length pre \<and> k ! length pre < n + length (r # rest))"
        by auto
      have c1: "\<not> (take (length pre) k = pre \<and> Suc n \<le> k ! length pre \<and>
                k ! length pre < Suc n + length rest)"
        using False by simp
      have c2: "\<not> (take (length pre) k = pre \<and> n \<le> k ! length pre \<and>
                k ! length pre < n + length (r # rest))"
        using out by simp
      show ?thesis
        unfolding written_rows_def if_not_P [OF c1] if_not_P [OF c2] w by simp
    qed
  qed
qed

lemma traversal_rows:
  fixes ba :: bool_array
  assumes "\<forall>r \<in> set rows. traversal_ok g r \<and> leading_shape r = rs"
    and "ba_shape ba = sp @ dm # rs"
    and "list_all2 (<) pre sp"
    and "n + length rows \<le> dm"
  shows "\<exists>x' ba'. traverse_rows g rows (length pre) n (map int pre @ x # replicate (length rs) (- 1), ba)
                   = Inr (map int pre @ x' # replicate (length rs) (- 1), ba')
               \<and> ba_shape ba' = ba_shape ba
               \<and> (\<forall>k. length k = length (ba_shape ba) \<longrightarrow>
                      ba_cells ba' k = written_rows g rows n pre (ba_cells ba) k)"
  using assms
proof (induction rows arbitrary: n x ba)
  case Nil
  have "written_rows g [] n pre (ba_cells ba) k = ba_cells ba k" for k
    by (auto simp: written_rows_def)
  then show ?case by simp
next
  case (Cons r rest)
  let ?ind = "map int pre @ x # replicate (length rs) (- 1)"
  let ?ind1 = "map int (pre @ [n]) @ replicate (length (leading_shape r)) (- 1)"
  from Cons.prems(1) have ok: "traversal_ok g r" and ls: "leading_shape r = rs" by auto
  have upd: "?ind[length pre := int n] = ?ind1"
    using list_update_length [of "map int pre" x "replicate (length rs) (- 1)" "int n"]
    by (simp add: ls)
  have shape1: "ba_shape ba = (sp @ [dm]) @ leading_shape r"
    using Cons.prems(2) ls by simp
  have lt1: "list_all2 (<) (pre @ [n]) (sp @ [dm])"
    using Cons.prems(3,4) by (simp add: list_all2_appendI)
  from ok [unfolded traversal_ok_def, rule_format, OF shape1 lt1]
  obtain ba1 where t1: "traverse_ndarray g r (?ind1, ba) = Inr (?ind1, ba1)"
    and sh1: "ba_shape ba1 = ba_shape ba"
    and c1: "\<And>k. length k = length (ba_shape ba) \<Longrightarrow>
               ba_cells ba1 k = written g r (pre @ [n]) (ba_cells ba) k"
    by blast
  have ind1: "?ind1 = map int pre @ int n # replicate (length rs) (- 1)"
    by (simp add: ls)
  have rest_ok: "\<forall>r \<in> set rest. traversal_ok g r \<and> leading_shape r = rs"
    using Cons.prems(1) by simp
  have sh1': "ba_shape ba1 = sp @ dm # rs" using sh1 Cons.prems(2) by simp
  have bound: "Suc n + length rest \<le> dm" using Cons.prems(4) by simp
  from Cons.IH [OF rest_ok sh1' Cons.prems(3) bound, of "int n"]
  obtain x' ba' where t2: "traverse_rows g rest (length pre) (Suc n)
        (map int pre @ int n # replicate (length rs) (- 1), ba1)
        = Inr (map int pre @ x' # replicate (length rs) (- 1), ba')"
    and sh2: "ba_shape ba' = ba_shape ba1"
    and c2: "\<And>k. length k = length (ba_shape ba1) \<Longrightarrow>
               ba_cells ba' k = written_rows g rest (Suc n) pre (ba_cells ba1) k"
    by blast
  have lenpre: "length pre = length sp" using Cons.prems(3) by (rule list_all2_lengthD)
  have step: "traverse_rows g (r # rest) (length pre) n (?ind, ba)
        = Inr (map int pre @ x' # replicate (length rs) (- 1), ba')"
    using t1 t2 by (simp add: upd ind1 del: map_append)
  have cells: "ba_cells ba' k = written_rows g (r # rest) n pre (ba_cells ba) k"
    if k: "length k = length (ba_shape ba)" for k
  proof -
    have len: "length pre < length k" using k Cons.prems(2) lenpre by simp
    have "ba_cells ba' k = written_rows g rest (Suc n) pre (ba_cells ba1) k"
      using c2 k sh1 by simp
    also have "\<dots> = written_rows g rest (Suc n) pre (written g r (pre @ [n]) (ba_cells ba)) k"
    proof -
      have eq: "ba_cells ba1 k = written g r (pre @ [n]) (ba_cells ba) k" using c1 k by simp
      show ?thesis by (simp add: written_rows_def eq split: option.split)
    qed
    also have "\<dots> = written_rows g (r # rest) n pre (ba_cells ba) k"
      by (rule written_step [OF len])
    finally show ?thesis .
  qed
  from step sh1 sh2 cells show ?case by auto
qed


lemma written_rows_Arr:
  assumes len: "length pre < length k"
  shows "written_rows g rows 0 pre old k = written g (Arr rs rows) pre old k"
proof -
  have d: "drop (length pre) k = k ! length pre # drop (Suc (length pre)) k"
    using len by (simp add: Cons_nth_drop_Suc)
  show ?thesis
    by (simp add: written_rows_def written_def d)
qed

lemma traversal_Arr:
  assumes rows: "\<forall>r \<in> set rows. traversal_ok g r \<and> leading_shape r = rs"
  shows "traversal_ok g (Arr rs rows)"
  unfolding traversal_ok_def
proof (intro allI impI)
  fix pre sp and ba :: bool_array
  assume sh: "ba_shape ba = sp @ leading_shape (Arr rs rows)" and lt: "list_all2 (<) pre sp"
  let ?ind = "map int pre @ replicate (length (leading_shape (Arr rs rows))) (- 1)"
  have ind: "?ind = map int pre @ (- 1) # replicate (length rs) (- 1)" by simp
  have sh': "ba_shape ba = sp @ length rows # rs" using sh by simp
  have lenpre: "length pre = length sp" using lt by (rule list_all2_lengthD)
  have cd: "length (filter (\<lambda>index. index \<noteq> - 1) ?ind) = length pre"
    by (rule curr_dim_count)
  from traversal_rows [OF rows sh' lt, of 0 "- 1"]
  obtain x' ba' where t: "traverse_rows g rows (length pre) 0
        (map int pre @ (- 1) # replicate (length rs) (- 1), ba)
        = Inr (map int pre @ x' # replicate (length rs) (- 1), ba')"
    and sh2: "ba_shape ba' = ba_shape ba"
    and c: "\<And>k. length k = length (ba_shape ba) \<Longrightarrow>
               ba_cells ba' k = written_rows g rows 0 pre (ba_cells ba) k"
    by auto
  have reset: "(map int pre @ x' # replicate (length rs) (- 1))[length pre := - 1]
      = map int pre @ (- 1) # replicate (length rs) (- 1)"
    using list_update_length [of "map int pre" x' "replicate (length rs) (- 1)" "- 1"] by simp
  have run: "traverse_ndarray g (Arr rs rows) (?ind, ba) = Inr (?ind, ba')"
    unfolding traverse_ndarray.simps fst_conv snd_conv Let_def cd
    unfolding ind t using reset by simp
  have cells: "ba_cells ba' k = written g (Arr rs rows) pre (ba_cells ba) k"
    if k: "length k = length (ba_shape ba)" for k
  proof -
    have len: "length pre < length k" using k sh' lenpre by simp
    show ?thesis using c [OF k] written_rows_Arr [OF len] by simp
  qed
  from run sh2 cells
  show "\<exists>ba'. traverse_ndarray g (Arr rs rows) (?ind, ba) = Inr (?ind, ba')
             \<and> ba_shape ba' = ba_shape ba
             \<and> (\<forall>k. length k = length (ba_shape ba) \<longrightarrow>
                    ba_cells ba' k = written g (Arr rs rows) pre (ba_cells ba) k)"
    by blast
qed

lemma traversal_ok_all: "well_shaped nd \<Longrightarrow> traversal_ok g nd"
proof (induction nd)
  case (Vec p)
  show ?case by (rule traversal_Vec)
next
  case (Arr rs rows)
  have "\<forall>r \<in> set rows. traversal_ok g r \<and> leading_shape r = rs"
    using Arr by (auto simp: list_all_iff)
  then show ?case by (rule traversal_Arr)
qed


text \<open>
  Claim C8: for an array of points of any leading shape \<open>is_inside\<close> returns a boolean
  array of exactly that leading shape, and its entry at every multi-index within the shape
  is the result of \<open>feito_torres\<close> for the point at that multi-index; one single point
  gives an array of length one holding its result.
\<close>

theorem is_inside_batch:
  assumes ws: "well_shaped nd_data"
  shows "\<exists>res. is_inside g nd_data = Inr res \<and>
           (case nd_data of
              Vec p \<Rightarrow> ba_shape res = [1] \<and> ba_cells res [0] = feito_torres g p
            | Arr row_shape rows \<Rightarrow>
                ba_shape res = leading_shape nd_data \<and>
                (\<forall>k. list_all2 (<) k (leading_shape nd_data) \<longrightarrow>
                   (\<exists>p. point_at nd_data k = Some p \<and> ba_cells res k = feito_torres g p)))"
proof (cases nd_data)
  case (Vec p)
  then show ?thesis by (simp add: is_inside_def)
next
  case (Arr rs rows)
  let ?sh = "leading_shape nd_data"
  have ok: "traversal_ok g nd_data" using ws by (rule traversal_ok_all)
  have s0: "ba_shape (np_zeros ?sh) = [] @ ?sh" by (simp add: np_zeros_def)
  from ok [unfolded traversal_ok_def, rule_format, OF s0, of "[]"]
  obtain ba' where t: "traverse_ndarray g nd_data (replicate (length ?sh) (- 1), np_zeros ?sh)
        = Inr (replicate (length ?sh) (- 1), ba')"
    and sh: "ba_shape ba' = ?sh"
    and c: "\<And>k. length k = length ?sh \<Longrightarrow>
              ba_cells ba' k = written g nd_data [] (ba_cells (np_zeros ?sh)) k"
    by (auto simp: np_zeros_def)
  have nd: "np_ndim nd_data - 1 = length ?sh" using Arr by simp
  have run: "is_inside g nd_data = Inr ba'"
    using t Arr nd by (simp add: is_inside_def Let_def)
  have cells: "\<exists>p. point_at nd_data k = Some p \<and> ba_cells ba' k = feito_torres g p"
    if k: "list_all2 (<) k ?sh" for k
  proof -
    from point_at_defined [OF ws k] obtain p where p: "point_at nd_data k = Some p" by blast
    have "length k = length ?sh" using k by (rule list_all2_lengthD)
    from c [OF this] p have "ba_cells ba' k = feito_torres g p"
      by (simp add: written_def)
    with p show ?thesis by blast
  qed
  show ?thesis
    using run sh cells Arr by auto
qed

theorem is_inside_batch_witness:
  "well_shaped grid_2_2 \<and>
   (\<exists>res. is_inside tetra_gamut grid_2_2 = Inr res \<and> ba_shape res = [2, 2] \<and>
      ba_cells res [1, 0] = feito_torres tetra_gamut (1 / 2, 1 / 2, 1 / 2))"
proof -
  have ws: "well_shaped grid_2_2" by (simp add: grid_2_2_def)
  have k: "list_all2 (<) [1, 0] (leading_shape grid_2_2)" by (simp add: grid_2_2_def)
  have p: "point_at grid_2_2 [1, 0] = Some (1 / 2, 1 / 2, 1 / 2)" by (simp add: grid_2_2_def)
  have sh: "leading_shape grid_2_2 = [2, 2]" by (simp add: grid_2_2_def)
  from is_inside_batch [OF ws, of tetra_gamut]
  obtain res where r: "is_inside tetra_gamut grid_2_2 = Inr res"
    and s: "ba_shape res = leading_shape grid_2_2"
    and c: "\<And>k. list_all2 (<) k (leading_shape grid_2_2) \<Longrightarrow>
              \<exists>p. point_at grid_2_2 k = Some p \<and> ba_cells res k = feito_torres tetra_gamut p"
    by (auto simp: grid_2_2_def)
  from c [OF k] obtain q where q: "point_at grid_2_2 [1, 0] = Some q"
    and cq: "ba_cells res [1, 0] = feito_torres tetra_gamut q" by blast
  from q p have "q = (1 / 2, 1 / 2, 1 / 2)" by (simp only: option.inject)
  with cq have "ba_cells res [1, 0] = feito_torres tetra_gamut (1 / 2, 1 / 2, 1 / 2)"
    by (simp only:)
  with ws r s sh show ?thesis by (simp only:) blast
qed

subsection \<open>Boundary intersection\<close>

lemma cube_gamut_oriented: "fix_orientation cube_gamut = cube_gamut"
  by (simp add: cube_gamut_def fix_orientation_def fix_simplex_def get_coordinates_def
      center_of_mass_def vsum_def Let_def)

lemma cube_alphas:
  "List.map_filter (facet_alpha (hull_points cube_gamut) (1, 0, 0) (0, 0, 0))
     (simplices cube_gamut) = [1, 1]"
  by (simp add: cube_gamut_def facet_alpha_eval geo_eval power2_eq_square)

lemma cube_intersection_example:
  "intersectionpoint_on_line cube_gamut (hull_points cube_gamut) (1, 0, 0) (0, 0, 0)
     = Inr (1, 0, 0)"
  unfolding intersectionpoint_on_line_def Let_def cube_alphas by (simp add: line_alpha_def)

lemma tetra_ray_alphas:
  "facet_alpha (hull_points tetra_gamut) (3, 1 / 2, - 2) (- 1, 1 / 2, 2) (0, 1, 3) = None"
  "facet_alpha (hull_points tetra_gamut) (3, 1 / 2, - 2) (- 1, 1 / 2, 2) (2, 1, 0) = Some (1 / 2)"
  "facet_alpha (hull_points tetra_gamut) (3, 1 / 2, - 2) (- 1, 1 / 2, 2) (0, 3, 2) = None"
  "facet_alpha (hull_points tetra_gamut) (3, 1 / 2, - 2) (- 1, 1 / 2, 2) (1, 2, 3) = Some (1 / 4)"
  by (simp_all add: facet_alpha_eval tetra_gamut_def geo_eval)

text \<open>
  Claim C5: among the valid crossings the one with the smallest \<open>alpha\<close> should be
  returned. On the oriented tetrahedron, the ray from \<open>(-1, 1/2, 2)\<close> towards
  \<open>(3, 1/2, -2)\<close> crosses the facet \<open>(1, 2, 3)\<close> at \<open>alpha = 1/4\<close> in \<open>(0, 1/2, 1)\<close> and the
  facet \<open>(2, 1, 0)\<close> at \<open>alpha = 1/2\<close> in \<open>(1, 1/2, 0)\<close>; the function returns the second
  point, the crossing of the facet that comes first in the facet list.
\<close>

theorem intersection_returns_first_crossing_not_nearest:
  "intersectionpoint_on_line tetra_gamut (hull_points tetra_gamut) (3, 1 / 2, - 2) (- 1, 1 / 2, 2)
     = Inr (1, 1 / 2, 0)
   \<and> (1, 1 / 2, 0) = line_alpha (1 / 2) (3, 1 / 2, - 2) (- 1, 1 / 2, 2)
   \<and> facet_alpha (hull_points tetra_gamut) (3, 1 / 2, - 2) (- 1, 1 / 2, 2) (1, 2, 3) = Some (1 / 4)
   \<and> line_alpha (1 / 4) (3, 1 / 2, - 2) (- 1, 1 / 2, 2) = (0, 1 / 2, 1)"
proof -
  have s: "simplices tetra_gamut = [(0, 1, 3), (2, 1, 0), (0, 3, 2), (1, 2, 3)]"
    by (simp add: tetra_gamut_def)
  have alpha: "List.map_filter (facet_alpha (hull_points tetra_gamut) (3, 1 / 2, - 2) (- 1, 1 / 2, 2))
      [(0, 1, 3), (2, 1, 0), (0, 3, 2), (1, 2, 3)] = [1 / 2, 1 / 4]"
    unfolding List.map_filter_simps tetra_ray_alphas option.case by (rule refl)
  have first: "intersectionpoint_on_line tetra_gamut (hull_points tetra_gamut)
      (3, 1 / 2, - 2) (- 1, 1 / 2, 2) = Inr (1, 1 / 2, 0)"
    unfolding intersectionpoint_on_line_def s Let_def alpha
    by (simp add: line_alpha_def)
  have pts: "(1, 1 / 2, 0) = line_alpha (1 / 2) (3, 1 / 2, - 2) (- 1, 1 / 2, 2)"
    "line_alpha (1 / 4) (3, 1 / 2, - 2) (- 1, 1 / 2, 2) = (0, 1 / 2, 1)"
    by (simp_all add: line_alpha_def)
  from first pts tetra_ray_alphas(4) show ?thesis by (simp only:) 
qed






subsection \<open>Construction\<close>

text \<open>
  Claim C7, as the code has it: the construction checks neither the number of points nor
  their coplanarity; it fails exactly when the call of the hull primitive fails, and with
  the same error.
\<close>

theorem gamut_init_fails_as_primitive:
  "gamut_init prim data_linear data_native gamma cen = Inl e
     \<longleftrightarrow> primitive_call prim data_linear data_native gamma cen = Inl e"
  by (auto simp: gamut_init_def primitive_call_def initialize_convex_hull_def
      initialize_modified_convex_hull_def split: sum.splits)

text \<open>
  Claim C7 as stated fails: with three points and a primitive that rejects them with
  \<open>QhullError\<close> the construction fails with \<open>QhullError\<close>, not \<open>DegenerateInputError\<close>.
\<close>

theorem gamut_init_few_points_counterexample:
  "length [(0, 0, 0), (1, 0, 0), (0, 1, 0)] < (4 :: nat)
   \<and> gamut_init rejecting_primitive [(0, 0, 0), (1, 0, 0), (0, 1, 0)]
        [(0, 0, 0), (1, 0, 0), (0, 1, 0)] 1 (0, 0, 0) = Inl QhullError
   \<and> gamut_init rejecting_primitive [(0, 0, 0), (1, 0, 0), (0, 1, 0)]
        [(0, 0, 0), (1, 0, 0), (0, 1, 0)] 1 (0, 0, 0) \<noteq> Inl DegenerateInputError"
  by (simp add: gamut_init_def initialize_convex_hull_def rejecting_primitive_def)

end
